theory Spec2Isabelle
  imports Main "HOL-Library.Word"
begin

unbundle bit_operations_syntax

section \<open>Machine values\<close>

text \<open>
  Bytes of RAM and ROM are \<open>uint8_t\<close>, framebuffer pixels are \<open>uint16_t\<close>. The renderers
  compute in C++ \<open>int\<close>; every value they form is built from bytes, small constants and
  the screen dimensions, far inside the 32-bit range, so \<open>int\<close> is modelled by HOL's
  \<open>int\<close>. On the non-negative values that occur, \<open>>>\<close> is \<open>drop_bit\<close> and
  \<open><<\<close> is \<open>push_bit\<close>.
\<close>

type_synonym u8 = "8 word"
type_synonym u16 = "16 word"

text \<open>The C++ operator \<open>%\<close> truncates towards zero.\<close>

definition c_rem :: "int \<Rightarrow> int \<Rightarrow> int" where
  "c_rem a b = sgn a * (\<bar>a\<bar> mod \<bar>b\<bar>)"

text \<open>
  A memory region (shared RAM pointer or ROM region base) is a store from byte offsets
  to bytes. The source indexes the regions without any check.
\<close>

type_synonym region = "int \<Rightarrow> u8"

section \<open>Framebuffer and clip rectangle\<close>

text \<open>\<open>bitmap_ind16\<close>: \<open>bitmap y x\<close> is \<open>bitmap.pix(y, x)\<close>.\<close>

type_synonym bitmap_ind16 = "int \<Rightarrow> int \<Rightarrow> u16"

definition pix_set :: "bitmap_ind16 \<Rightarrow> int \<Rightarrow> int \<Rightarrow> u16 \<Rightarrow> bitmap_ind16" where
  "pix_set bitmap y x v = bitmap(y := (bitmap y)(x := v))"

text \<open>
  Modelled from the spec: the \<open>rectangle\<close> class of the host framework is not part of
  the sources. The ClipRectangle has inclusive min-x/min-y and exclusive max-x/max-y.
\<close>

record rectangle =
  min_x :: int
  max_x :: int
  min_y :: int
  max_y :: int

definition rect_contains :: "rectangle \<Rightarrow> int \<Rightarrow> int \<Rightarrow> bool" where
  "rect_contains r x y \<longleftrightarrow> min_x r \<le> x \<and> x < max_x r \<and> min_y r \<le> y \<and> y < max_y r"

text \<open>
  Modelled from the spec: \<open>bitmap.fill(colour, cliprect)\<close> of the host framework, the
  "clear" step of the frame renderer: every pixel of the clip takes the colour.
\<close>

definition fill :: "bitmap_ind16 \<Rightarrow> u16 \<Rightarrow> rectangle \<Rightarrow> bitmap_ind16" where
  "fill bitmap colour cliprect =
     (\<lambda>y x. if rect_contains cliprect x y then colour else bitmap y x)"

section \<open>Pattern decoder and tile blitter\<close>

text \<open>
  Modelled from the spec: the \<open>gfx_element\<close> of the host framework (the PatternDecoder)
  is not part of the sources. It is given by the tile size of its layout, the number of
  tiles, the decoded palette-index byte of pixel \<open>(tx, ty)\<close> of each tile, and the
  palette base of each colour code.
\<close>

record gfx_element =
  gfx_width :: int
  gfx_height :: int
  gfx_elements :: int
  gfx_decode :: "int \<Rightarrow> int \<Rightarrow> int \<Rightarrow> u8"
  gfx_palette_base :: "int \<Rightarrow> u16"

text \<open>
  Modelled from the spec: the TileBlitter (section 4.2). For each pixel \<open>(tx, ty)\<close> in the
  tile's bounding box, decode at \<open>(flip_x ? w-1-tx : tx, flip_y ? h-1-ty : ty)\<close>; if the
  decoded index equals the transparent index, skip; else write
  \<open>palette_base | decoded\<close> to \<open>fb[dst_y+ty, dst_x+tx]\<close> iff that point lies in the clip.
  The pixels of one tile go to distinct destinations, so the result is given per
  destination pixel.
\<close>

definition blit ::
  "bitmap_ind16 \<Rightarrow> rectangle \<Rightarrow> gfx_element \<Rightarrow> int \<Rightarrow> u16 \<Rightarrow> bool \<Rightarrow> bool \<Rightarrow> int \<Rightarrow> int \<Rightarrow> u8
     \<Rightarrow> bitmap_ind16" where
  "blit fb clip gfx tile palette_base flip_x flip_y dst_x dst_y transparent_index =
     (\<lambda>py px.
        let tx = px - dst_x; ty = py - dst_y; w = gfx_width gfx; h = gfx_height gfx
        in if 0 \<le> tx \<and> tx < w \<and> 0 \<le> ty \<and> ty < h \<and> rect_contains clip px py
           then (let decoded = gfx_decode gfx tile
                                 (if flip_x then w - 1 - tx else tx)
                                 (if flip_y then h - 1 - ty else ty)
                 in if decoded = transparent_index then fb py px
                    else palette_base OR ucast decoded)
           else fb py px)"

text \<open>
  Modelled from the spec: \<open>gfx->transpen(bitmap, cliprect, code, color, flipx, flipy, x, y,
  transpen)\<close> of the host framework. A tile index outside the pattern ROM is masked to
  \<open>tile_index mod tile_count\<close> (section 7, Bounds).
\<close>

definition transpen ::
  "gfx_element \<Rightarrow> bitmap_ind16 \<Rightarrow> rectangle \<Rightarrow> int \<Rightarrow> int \<Rightarrow> bool \<Rightarrow> bool \<Rightarrow> int \<Rightarrow> int \<Rightarrow> u8
     \<Rightarrow> bitmap_ind16" where
  "transpen gfx bitmap cliprect code color flipx flipy x y trans_pen =
     blit bitmap cliprect gfx (code mod gfx_elements gfx) (gfx_palette_base gfx color)
       flipx flipy x y trans_pen"

section \<open>Sky Fox: state read by the video code\<close>

text \<open>
  The members and collaborators of \<open>skyfox_state\<close> that \<open>skyfox_v.cpp\<close> reads:
  the control register, the work RAM, the sprite RAM with its size in bytes,
  the ROM region \<open>gfx2\<close>, the graphics element 0 and the screen size.
\<close>

record skyfox_state =
  m_bg_ctrl :: u8
  m_bgram :: region
  m_spriteram :: region
  m_spriteram_bytes :: nat
  memregion_gfx2 :: region
  m_gfxdecode_gfx0 :: gfx_element
  m_screen_width :: int
  m_screen_height :: int

section \<open>Sky Fox: background rendering\<close>

text \<open>Line 208: the ROM offset of star \<open>i\<close> for a star pattern.\<close>

definition star_offs :: "int \<Rightarrow> int \<Rightarrow> int" where
  "star_offs pattern i = c_rem (i * 2) 0x2000 + pattern * 0x2000"

text \<open>Line 199: the star pattern selected by the control register.\<close>

definition star_pattern :: "u8 \<Rightarrow> int" where
  "star_pattern ctrl = drop_bit 1 (uint ctrl AND 0x6)"

text \<open>Lines 203 to 223: the body of the loop of \<open>draw_background\<close>.\<close>

definition draw_star :: "skyfox_state \<Rightarrow> region \<Rightarrow> bool \<Rightarrow> int \<Rightarrow> int \<Rightarrow> bitmap_ind16 \<Rightarrow> bitmap_ind16" where
  "draw_star s rom blinking pattern i bitmap =
     (let ramoffset = 0xe0 + (i AND 0xf) * 2;
          pos = uint (m_bgram s (ramoffset + 1)) * 2
                + (if uint (m_bgram s ramoffset) AND 0x80 \<noteq> 0 then 1 else 0);
          offs = star_offs pattern i;
          pen = uint (rom offs);
          x = uint (rom (offs + 1)) * 2 + pos + 0x5b;
          y = drop_bit 4 i + 1
      in if (drop_bit 4 (uint (m_bg_ctrl s)) AND 3) \<noteq> (pen AND 3) \<or> \<not> blinking
         then pix_set bitmap (c_rem y 256) (c_rem x 512) (word_of_int pen)
         else bitmap)"

text \<open>Line 201: \<open>for (int i = 0; i < 0x1000; i++)\<close>.\<close>

function draw_background_loop ::
  "skyfox_state \<Rightarrow> region \<Rightarrow> bool \<Rightarrow> int \<Rightarrow> int \<Rightarrow> bitmap_ind16 \<Rightarrow> bitmap_ind16" where
  "draw_background_loop s rom blinking pattern i bitmap =
     (if i < 0x1000
      then draw_background_loop s rom blinking pattern (i + 1)
             (draw_star s rom blinking pattern i bitmap)
      else bitmap)"
  by pat_completeness auto
termination
  by (relation "measure (\<lambda>(s, rom, blinking, pattern, i, bitmap). nat (0x1000 - i))") auto

text \<open>Lines 191 to 225. The clip rectangle is a parameter that the body never reads.\<close>

definition draw_background :: "skyfox_state \<Rightarrow> bitmap_ind16 \<Rightarrow> rectangle \<Rightarrow> bitmap_ind16" where
  "draw_background s bitmap cliprect =
     (let rom = memregion_gfx2 s;
          blinking = (uint (m_bg_ctrl s) AND 0x8 \<noteq> 0);
          pattern = star_pattern (m_bg_ctrl s)
      in draw_background_loop s rom blinking pattern 0 bitmap)"

section \<open>Sky Fox: sprite drawing\<close>

text \<open>
  Lines 169 to 175: the inner loop \<open>for (dx = xstart; dx != xend; dx += xinc, code++)\<close>.
  The loop ends only when \<open>dx\<close> meets \<open>xend\<close>, so it is a partial function: \<open>None\<close> is
  a loop that never returns. It yields the running tile code with the bitmap.
\<close>

partial_function (option) draw_sprite_row ::
  "gfx_element \<Rightarrow> rectangle \<Rightarrow> bool \<Rightarrow> bool \<Rightarrow> int \<Rightarrow> int \<Rightarrow> int \<Rightarrow> int \<Rightarrow> int \<Rightarrow> int \<Rightarrow> int
     \<Rightarrow> bitmap_ind16 \<Rightarrow> (int \<times> bitmap_ind16) option" where
  "draw_sprite_row gfx cliprect flipx flipy x y dy xend xinc dx code bitmap =
     (if dx \<noteq> xend
      then draw_sprite_row gfx cliprect flipx flipy x y dy xend xinc (dx + xinc) (code + 1)
             (transpen gfx
                (transpen gfx bitmap cliprect code 0 flipx flipy (dx * 8 + x) (dy * 8 + y) 0xff)
                cliprect code 0 flipx flipy (dx * 8 + x) (dy * 8 + y - 256) 0xff)
      else Some (code, bitmap))"

text \<open>
  Lines 167 to 179: the outer loop \<open>for (dy = ystart; dy != yend; dy += yinc)\<close> with the
  row advance \<open>if (n == 2) code += 2\<close>.
\<close>

partial_function (option) draw_sprite_rows ::
  "gfx_element \<Rightarrow> rectangle \<Rightarrow> bool \<Rightarrow> bool \<Rightarrow> int \<Rightarrow> int \<Rightarrow> int \<Rightarrow> int \<Rightarrow> int \<Rightarrow> int \<Rightarrow> int \<Rightarrow> int
     \<Rightarrow> int \<Rightarrow> int \<Rightarrow> bitmap_ind16 \<Rightarrow> bitmap_ind16 option" where
  "draw_sprite_rows gfx cliprect flipx flipy x y n xstart xend xinc yend yinc dy code bitmap =
     (if dy \<noteq> yend
      then (case draw_sprite_row gfx cliprect flipx flipy x y dy xend xinc xstart code bitmap of
              None \<Rightarrow> None
            | Some (code', bitmap') \<Rightarrow>
                draw_sprite_rows gfx cliprect flipx flipy x y n xstart xend xinc yend yinc
                  (dy + yinc) (if n = 2 then code' + 2 else code') bitmap')
      else Some bitmap)"

text \<open>
  Lines 158 to 179: the loop bounds chosen from the flip flags, then the two loops,
  started with \<open>code = low_code + high_code\<close>.
\<close>

definition draw_tiles ::
  "gfx_element \<Rightarrow> rectangle \<Rightarrow> int \<Rightarrow> int \<Rightarrow> bool \<Rightarrow> bool \<Rightarrow> int \<Rightarrow> int \<Rightarrow> bitmap_ind16
     \<Rightarrow> bitmap_ind16 option" where
  "draw_tiles gfx cliprect n code flipx flipy x y bitmap =
     (let (xstart, xend, xinc) = (if flipx then (n - 1, - 1, - 1) else (0, n, 1));
          (ystart, yend, yinc) = (if flipy then (n - 1, - 1, - 1) else (0, n, 1))
      in draw_sprite_rows gfx cliprect flipx flipy x y n xstart xend xinc yend yinc
           ystart code bitmap)"

text \<open>Line 127: the bank shift; line 141: the high part of the tile code.\<close>

definition sprite_shift :: "skyfox_state \<Rightarrow> nat" where
  "sprite_shift s = (if uint (m_bg_ctrl s) AND 0x80 \<noteq> 0 then 4 - 1 else 4)"

text \<open>
  Lines 135 to 165: one sprite-table entry at byte offset \<open>offs\<close>. The flags
  \<open>flipx\<close> and \<open>flipy\<close> are C++ ints used as truth values; they are modelled as bool.
\<close>

definition draw_sprite ::
  "skyfox_state \<Rightarrow> int \<Rightarrow> bitmap_ind16 \<Rightarrow> rectangle \<Rightarrow> bitmap_ind16 option" where
  "draw_sprite s offs bitmap cliprect =
     (let gfx = m_gfxdecode_gfx0 s;
          width = m_screen_width s;
          height = m_screen_height s;
          shift = sprite_shift s;
          code = push_bit 8 (uint (m_spriteram s (offs + 3))) OR uint (m_spriteram s (offs + 2));
          flipx = (code AND 0x2 \<noteq> 0);
          flipy = (code AND 0x4 \<noteq> 0);
          y = uint (m_spriteram s (offs + 0));
          x = push_bit 1 (uint (m_spriteram s (offs + 1))) OR (code AND 1);
          high_code = (drop_bit 4 code AND 0x7f0) + drop_bit shift (code AND 0x8000);
          (n, low_code) =
             (if code AND 0x88 = 0x88 then (4, 0)
              else if code AND 0x88 = 0x08
                   then (2, drop_bit 2 (code AND 0x20) OR drop_bit 3 (code AND 0x10))
                   else (1, drop_bit 4 code AND 0xf));
          (x, y, flipx, flipy) =
             (if uint (m_bg_ctrl s) AND 1 \<noteq> 0
              then (width - x - n * 8, height - y - n * 8, \<not> flipx, \<not> flipy)
              else (x, y, flipx, flipy))
      in draw_tiles gfx cliprect n (low_code + high_code) flipx flipy x y bitmap)"

text \<open>Line 129: \<open>for (int offs = 0; offs < m_spriteram.bytes(); offs += 4)\<close>.\<close>

function draw_sprites_loop ::
  "skyfox_state \<Rightarrow> int \<Rightarrow> bitmap_ind16 \<Rightarrow> rectangle \<Rightarrow> bitmap_ind16 option" where
  "draw_sprites_loop s offs bitmap cliprect =
     (if offs < int (m_spriteram_bytes s)
      then (case draw_sprite s offs bitmap cliprect of
              None \<Rightarrow> None
            | Some bitmap' \<Rightarrow> draw_sprites_loop s (offs + 4) bitmap' cliprect)
      else Some bitmap)"
  by pat_completeness auto
termination
  by (relation "measure (\<lambda>(s, offs, bitmap, cliprect). nat (int (m_spriteram_bytes s) - offs))")
     auto

definition draw_sprites :: "skyfox_state \<Rightarrow> bitmap_ind16 \<Rightarrow> rectangle \<Rightarrow> bitmap_ind16 option" where
  "draw_sprites s bitmap cliprect = draw_sprites_loop s 0 bitmap cliprect"

section \<open>Sky Fox: screen drawing\<close>

text \<open>Lines 234 to 240: fill with 0xff, then the background, then the sprites.\<close>

definition screen_update_skyfox ::
  "skyfox_state \<Rightarrow> bitmap_ind16 \<Rightarrow> rectangle \<Rightarrow> bitmap_ind16 option" where
  "screen_update_skyfox s bitmap cliprect =
     draw_sprites s (draw_background s (fill bitmap 0xff cliprect) cliprect) cliprect"

section \<open>Sky Fox: the star field in the words of the specification\<close>

text \<open>
  Section 4.3 of the specification, step by step. A star candidate is either suppressed
  (\<open>None\<close>) or one pixel write: row, column and pen.
\<close>

definition spec_star :: "skyfox_state \<Rightarrow> int \<Rightarrow> (int \<times> int \<times> int) option" where
  "spec_star s i =
     (let ram_offset = 0xE0 + (i AND 0xF) * 2;
          a = m_bgram s ram_offset;
          b = m_bgram s (ram_offset + 1);
          pos = uint b * 2 + (if bit a 7 then 1 else 0);
          pattern = drop_bit 1 (uint (m_bg_ctrl s)) AND 0x3;
          offs = ((i * 2) mod 0x2000) + pattern * 0x2000;
          pen = uint (memregion_gfx2 s offs);
          x = uint (memregion_gfx2 s (offs + 1)) * 2 + pos + 0x5B;
          y = drop_bit 4 i + 1
      in if bit (m_bg_ctrl s) 3 \<and> (drop_bit 4 (uint (m_bg_ctrl s)) AND 0x3) = (pen AND 0x3)
         then None
         else Some (y mod 256, x mod 512, pen))"

definition spec_star_write :: "skyfox_state \<Rightarrow> int \<Rightarrow> bitmap_ind16 \<Rightarrow> bitmap_ind16" where
  "spec_star_write s i fb =
     (case spec_star s i of
        None \<Rightarrow> fb
      | Some (y, x, pen) \<Rightarrow> pix_set fb y x (word_of_int pen))"

section \<open>Sky Fox: the sprite renderer in the words of the specification\<close>

text \<open>Section 4.4 of the specification: the fields decoded from the entry at an offset.\<close>

definition spec_code16 :: "skyfox_state \<Rightarrow> int \<Rightarrow> int" where
  "spec_code16 s offs =
     push_bit 8 (uint (m_spriteram s (offs + 3))) OR uint (m_spriteram s (offs + 2))"

definition spec_flip_x :: "int \<Rightarrow> bool" where
  "spec_flip_x code16 \<longleftrightarrow> code16 AND 0x02 \<noteq> 0"

definition spec_flip_y :: "int \<Rightarrow> bool" where
  "spec_flip_y code16 \<longleftrightarrow> code16 AND 0x04 \<noteq> 0"

definition spec_y :: "skyfox_state \<Rightarrow> int \<Rightarrow> int" where
  "spec_y s offs = uint (m_spriteram s (offs + 0))"

definition spec_x :: "skyfox_state \<Rightarrow> int \<Rightarrow> int" where
  "spec_x s offs = push_bit 1 (uint (m_spriteram s (offs + 1))) OR (spec_code16 s offs AND 1)"

definition spec_n :: "int \<Rightarrow> int" where
  "spec_n code16 =
     (if code16 AND 0x88 = 0x88 then 4 else if code16 AND 0x88 = 0x08 then 2 else 1)"

definition spec_low_code :: "int \<Rightarrow> int" where
  "spec_low_code code16 =
     (if code16 AND 0x88 = 0x88 then 0
      else if code16 AND 0x88 = 0x08
           then drop_bit 2 (code16 AND 0x20) OR drop_bit 3 (code16 AND 0x10)
           else drop_bit 4 code16 AND 0xF)"

definition spec_shift :: "skyfox_state \<Rightarrow> nat" where
  "spec_shift s = (if bit (m_bg_ctrl s) 7 then 3 else 4)"

definition spec_high_code :: "skyfox_state \<Rightarrow> int \<Rightarrow> int" where
  "spec_high_code s code16 =
     (drop_bit 4 code16 AND 0x7F0) + drop_bit (spec_shift s) (code16 AND 0x8000)"

text \<open>
  The tile walk: columns within a row, the code incremented after every tile; rows one
  after the other, the code advanced by 2 after every row when \<open>n = 2\<close>. A walked tile
  is \<open>(dx, dy, code)\<close>.
\<close>

fun spec_walk_row :: "int list \<Rightarrow> int \<Rightarrow> int \<Rightarrow> (int \<times> int \<times> int) list \<times> int" where
  "spec_walk_row [] dy code = ([], code)"
| "spec_walk_row (dx # dxs) dy code =
     (let (tiles, code') = spec_walk_row dxs dy (code + 1) in ((dx, dy, code) # tiles, code'))"

text \<open>
  The tile walk: columns within a row, the code incremented after every tile; rows one
  after the other, the code advanced by 2 after every row when \<open>n = 2\<close>. A walked tile
  is \<open>(dx, dy, code)\<close>.
\<close>

fun spec_walk_rows :: "int \<Rightarrow> int list \<Rightarrow> int list \<Rightarrow> int \<Rightarrow> (int \<times> int \<times> int) list" where
  "spec_walk_rows n [] dxs code = []"
| "spec_walk_rows n (dy # dys) dxs code =
     (let (tiles, code') = spec_walk_row dxs dy code
      in tiles @ spec_walk_rows n dys dxs (if n = 2 then code' + 2 else code'))"

text \<open>The indices \<open>[0, n)\<close>, reversed under the flip flag.\<close>

definition spec_order :: "int \<Rightarrow> bool \<Rightarrow> int list" where
  "spec_order n flip = (if flip then rev [0..n - 1] else [0..n - 1])"

definition spec_walk :: "int \<Rightarrow> int \<Rightarrow> bool \<Rightarrow> bool \<Rightarrow> (int \<times> int \<times> int) list" where
  "spec_walk n code flip_x flip_y =
     spec_walk_rows n (spec_order n flip_y) (spec_order n flip_x) code"

text \<open>
  Each tile is blitted twice, at \<open>(dx*8 + x, dy*8 + y)\<close> and at
  \<open>(dx*8 + x, dy*8 + y - 256)\<close>, with transparent index 0xFF.
\<close>

definition spec_blit_twice ::
  "gfx_element \<Rightarrow> rectangle \<Rightarrow> bool \<Rightarrow> bool \<Rightarrow> int \<Rightarrow> int \<Rightarrow> int \<times> int \<times> int \<Rightarrow> bitmap_ind16
     \<Rightarrow> bitmap_ind16" where
  "spec_blit_twice gfx clip flip_x flip_y x y tile fb =
     (case tile of (dx, dy, code) \<Rightarrow>
        transpen gfx
          (transpen gfx fb clip code 0 flip_x flip_y (dx * 8 + x) (dy * 8 + y) 0xFF)
          clip code 0 flip_x flip_y (dx * 8 + x) (dy * 8 + y - 256) 0xFF)"

text \<open>One entry: decode, flip-screen, compose tiles.\<close>

definition spec_draw_sprite :: "skyfox_state \<Rightarrow> rectangle \<Rightarrow> int \<Rightarrow> bitmap_ind16 \<Rightarrow> bitmap_ind16" where
  "spec_draw_sprite s clip offs fb =
     (let code16 = spec_code16 s offs;
          n = spec_n code16;
          low_code = spec_low_code code16;
          high_code = spec_high_code s code16;
          flip_screen = bit (m_bg_ctrl s) 0;
          x = (if flip_screen then m_screen_width s - spec_x s offs - n * 8 else spec_x s offs);
          y = (if flip_screen then m_screen_height s - spec_y s offs - n * 8 else spec_y s offs);
          flip_x = (if flip_screen then \<not> spec_flip_x code16 else spec_flip_x code16);
          flip_y = (if flip_screen then \<not> spec_flip_y code16 else spec_flip_y code16)
      in fold (spec_blit_twice (m_gfxdecode_gfx0 s) clip flip_x flip_y x y)
           (spec_walk n (low_code + high_code) flip_x flip_y) fb)"

text \<open>The offsets of a sprite table of the given size, stride 4, in increasing order.\<close>

definition spec_sprite_offsets :: "nat \<Rightarrow> int list" where
  "spec_sprite_offsets bytes = map (\<lambda>k. 4 * int k) [0..<(bytes + 3) div 4]"

section \<open>Chack'n Pop: the memory map\<close>

text \<open>
  Lines 164 to 184 of \<open>chaknpop.cpp\<close>: the address map of the main CPU, one entry per
  \<open>map(start, end)\<close> line with both ends inclusive, the kind of its handler and the
  name of the memory share it declares, if any.
\<close>

datatype handler = Rom | Ram | Device_rw | Reader | Writer | Port_read | Bank_rw

record map_entry =
  addr_start :: nat
  addr_end :: nat
  map_handler :: handler
  map_share :: "string option"

definition chaknpop_map :: "map_entry list" where
  "chaknpop_map =
     [\<lparr>addr_start = 0x0000, addr_end = 0x7fff, map_handler = Rom, map_share = None\<rparr>,
      \<lparr>addr_start = 0x8000, addr_end = 0x87ff, map_handler = Ram, map_share = None\<rparr>,
      \<lparr>addr_start = 0x8800, addr_end = 0x8800, map_handler = Device_rw, map_share = None\<rparr>,
      \<lparr>addr_start = 0x8801, addr_end = 0x8801, map_handler = Reader, map_share = None\<rparr>,
      \<lparr>addr_start = 0x8802, addr_end = 0x8802, map_handler = Writer, map_share = None\<rparr>,
      \<lparr>addr_start = 0x8804, addr_end = 0x8805, map_handler = Device_rw, map_share = None\<rparr>,
      \<lparr>addr_start = 0x8806, addr_end = 0x8807, map_handler = Device_rw, map_share = None\<rparr>,
      \<lparr>addr_start = 0x8808, addr_end = 0x8808, map_handler = Port_read, map_share = None\<rparr>,
      \<lparr>addr_start = 0x8809, addr_end = 0x8809, map_handler = Port_read, map_share = None\<rparr>,
      \<lparr>addr_start = 0x880a, addr_end = 0x880a, map_handler = Port_read, map_share = None\<rparr>,
      \<lparr>addr_start = 0x880b, addr_end = 0x880b, map_handler = Port_read, map_share = None\<rparr>,
      \<lparr>addr_start = 0x880c, addr_end = 0x880c, map_handler = Device_rw, map_share = None\<rparr>,
      \<lparr>addr_start = 0x880d, addr_end = 0x880d, map_handler = Writer, map_share = None\<rparr>,
      \<lparr>addr_start = 0x9000, addr_end = 0x93ff, map_handler = Ram, map_share = Some ''tx_ram''\<rparr>,
      \<lparr>addr_start = 0x9800, addr_end = 0x983f, map_handler = Ram, map_share = Some ''attr_ram''\<rparr>,
      \<lparr>addr_start = 0x9840, addr_end = 0x98ff, map_handler = Ram, map_share = Some ''spr_ram''\<rparr>,
      \<lparr>addr_start = 0xa000, addr_end = 0xbfff, map_handler = Rom, map_share = None\<rparr>,
      \<lparr>addr_start = 0xc000, addr_end = 0xffff, map_handler = Bank_rw, map_share = None\<rparr>]"

text \<open>The regions that declare a share, and the bytes they span.\<close>

definition share_regions :: "string \<Rightarrow> map_entry list \<Rightarrow> map_entry list" where
  "share_regions name m = filter (\<lambda>e. map_share e = Some name) m"

definition region_bytes :: "map_entry \<Rightarrow> nat" where
  "region_bytes e = addr_end e - addr_start e + 1"

definition share_bytes :: "string \<Rightarrow> map_entry list \<Rightarrow> nat" where
  "share_bytes name m = sum_list (map region_bytes (share_regions name m))"

text \<open>
  Modelled from the spec: the sprite renderer of Chack'n Pop (\<open>chaknpop_v.cpp\<close>) is not
  among the sources. Section 4.7: entries of 4 bytes each in \<open>spr_ram\<close>, byte layout
  tile / colour / y / x.
\<close>

record chaknpop_sprite =
  spr_tile :: u8
  spr_colour :: u8
  spr_y :: u8
  spr_x :: u8

fun spr_entries :: "u8 list \<Rightarrow> chaknpop_sprite list" where
  "spr_entries (t # c # y # x # rest) =
     \<lparr>spr_tile = t, spr_colour = c, spr_y = y, spr_x = x\<rparr> # spr_entries rest"
| "spr_entries rest = []"

section \<open>Concrete snapshots\<close>

text \<open>A graphics element of 8 by 8 tiles whose every pixel is the transparent index.\<close>

definition blank_gfx :: gfx_element where
  "blank_gfx = \<lparr>gfx_width = 8, gfx_height = 8, gfx_elements = 0x2000,
                 gfx_decode = (\<lambda>code tx ty. 0xff), gfx_palette_base = (\<lambda>color. 0)\<rparr>"

text \<open>
  Scenario A: control register 0, work RAM all zero, background ROM all zero; the
  sprites have no opaque pixel.
\<close>

definition scenario_a :: skyfox_state where
  "scenario_a = \<lparr>m_bg_ctrl = 0, m_bgram = (\<lambda>a. 0), m_spriteram = (\<lambda>a. 0),
                  m_spriteram_bytes = 1024, memregion_gfx2 = (\<lambda>a. 0),
                  m_gfxdecode_gfx0 = blank_gfx, m_screen_width = 512, m_screen_height = 256\<rparr>"

text \<open>
  Scenario A with work RAM changed where the star field does not look: the low seven
  bits of the even byte at 0xE0 and a byte below 0xE0.
\<close>

definition scenario_a_ram :: skyfox_state where
  "scenario_a_ram =
     scenario_a\<lparr>m_bgram := (\<lambda>a. if a = 0xE0 then 0x7F else if a = 0x10 then 0x55 else 0)\<rparr>"

definition full_clip :: rectangle where
  "full_clip = \<lparr>min_x = 0, max_x = 512, min_y = 0, max_y = 256\<rparr>"


text \<open>
  A graphics element of 8 by 8 tiles: codes 0 to 15 (the sixteen parts of the 32 by 32
  tile 0) are filled with palette index 0x01, codes 16 to 31 (tile 1) with 0x02, and
  every other tile is transparent.
\<close>

definition solid_gfx :: gfx_element where
  "solid_gfx = \<lparr>gfx_width = 8, gfx_height = 8, gfx_elements = 0x1800,
                 gfx_decode = (\<lambda>code tx ty. if code < 16 then 0x01 else if code < 32 then 0x02 else 0xff),
                 gfx_palette_base = (\<lambda>color. 0)\<rparr>"

text \<open>A bitmap holding 0x55 everywhere, and the pixel of a rendering that returned.\<close>

definition grey_bitmap :: bitmap_ind16 where
  "grey_bitmap = (\<lambda>y x. 0x55)"

definition rendered_pixel :: "bitmap_ind16 option \<Rightarrow> int \<Rightarrow> int \<Rightarrow> u16 option" where
  "rendered_pixel r y x = (case r of None \<Rightarrow> None | Some fb \<Rightarrow> Some (fb y x))"

text \<open>A single 16 by 16 sprite: entry 0 is \<open>{0x20, 0x30, 0x18, 0x00}\<close>.\<close>

definition scenario_16 :: skyfox_state where
  "scenario_16 =
     scenario_a\<lparr>m_spriteram := (\<lambda>a. if a = 0 then 0x20 else if a = 1 then 0x30
                                  else if a = 2 then 0x18 else 0),
                m_gfxdecode_gfx0 := solid_gfx\<rparr>"

text \<open>
  A graphics element of 8 by 8 tiles in which only the tile of code 0x500 is opaque: its
  pixel \<open>(0, 0)\<close> has palette index 0x07 and its other pixels 0x03, so that the
  place and the orientation of a blit of it can be read off the bitmap.
\<close>

definition marked_gfx :: gfx_element where
  "marked_gfx = \<lparr>gfx_width = 8, gfx_height = 8, gfx_elements = 0x1800,
                  gfx_decode = (\<lambda>code tx ty. if code = 0x500
                                               then (if tx = 0 \<and> ty = 0 then 0x07 else 0x03)
                                               else 0xff),
                  gfx_palette_base = (\<lambda>color. 0)\<rparr>"

text \<open>
  Scenario C: entry 0 is \<open>{0x20, 0x30, 0x00, 0x50}\<close>, control register 0x01; and the
  same snapshot with flip-screen clear.
\<close>

definition scenario_c :: skyfox_state where
  "scenario_c =
     scenario_a\<lparr>m_bg_ctrl := 0x01,
                m_spriteram := (\<lambda>a. if a = 0 then 0x20 else if a = 1 then 0x30
                                  else if a = 2 then 0x00 else if a = 3 then 0x50 else 0),
                m_gfxdecode_gfx0 := marked_gfx\<rparr>"

definition scenario_c_upright :: skyfox_state where
  "scenario_c_upright = scenario_c\<lparr>m_bg_ctrl := 0x00\<rparr>"

text \<open>
  Two overlapping 8 by 8 sprites: the all-zero entry 0 (tile code 0 at (0, 0)) and entry 4,
  \<open>{0x04, 0x02, 0x00, 0x01}\<close> (tile code 16 at (4, 4)); every later entry selects the
  transparent tile code 32.
\<close>

definition scenario_overlap :: skyfox_state where
  "scenario_overlap =
     scenario_a\<lparr>m_spriteram := (\<lambda>a. if a < 4 then 0 else if a = 4 then 4 else if a = 5 then 2
                                  else if a = 6 then 0 else if a = 7 then 1
                                  else if a mod 4 = 3 then 2 else 0),
                m_gfxdecode_gfx0 := solid_gfx\<rparr>"

text \<open>An all-zero sprite table under flip-screen.\<close>

definition scenario_flip_zero :: skyfox_state where
  "scenario_flip_zero = scenario_a\<lparr>m_bg_ctrl := 0x01, m_gfxdecode_gfx0 := solid_gfx\<rparr>"

text \<open>
  Scenario B: entry 0 is \<open>{0x10, 0x40, 0x88, 0x00}\<close>, control register 0, tile 0 filled
  with palette index 0x01; every other entry selects the transparent tile code 32.
\<close>

definition scenario_b :: skyfox_state where
  "scenario_b =
     scenario_a\<lparr>m_spriteram := (\<lambda>a. if a = 0 then 0x10 else if a = 1 then 0x40
                                  else if a = 2 then 0x88 else if a = 3 then 0x00
                                  else if a mod 4 = 3 then 0x02 else 0),
                m_gfxdecode_gfx0 := solid_gfx\<rparr>"

text \<open>
  A clip of 8 by 8 pixels, and a clip that reaches 256 rows above the screen (where the
  wrap clones of the sprites are drawn).
\<close>

definition small_clip :: rectangle where
  "small_clip = \<lparr>min_x = 0, max_x = 8, min_y = 0, max_y = 8\<rparr>"

definition tall_clip :: rectangle where
  "tall_clip = \<lparr>min_x = 0, max_x = 512, min_y = - 256, max_y = 256\<rparr>"

section \<open>Arithmetic of the C++ operators\<close>

lemma c_rem_nonneg: "0 \<le> a \<Longrightarrow> 0 < b \<Longrightarrow> c_rem a b = a mod b"
  by (cases "a = 0") (simp_all add: c_rem_def)

lemma and_0x80_bit: "((x::int) AND 0x80 \<noteq> 0) = bit x 7"
  using and_exp_eq_0_iff_not_bit [of x 7] by simp

lemma and_8_bit: "((x::int) AND 0x8 \<noteq> 0) = bit x 3"
  using and_exp_eq_0_iff_not_bit [of x 3] by simp

lemma and_1_bit: "((x::int) AND 1 \<noteq> 0) = bit x 0"
  using and_exp_eq_0_iff_not_bit [of x 0] by simp

lemma drop_bit_and_6: "drop_bit 1 ((x::int) AND 6) = drop_bit 1 x AND 3"
proof -
  have "(6::int) = push_bit 1 3" by simp
  then have "drop_bit 1 (x AND 6) = drop_bit 1 x AND drop_bit 1 (push_bit 1 (3::int))"
    by (simp only: drop_bit_and)
  then show ?thesis by simp
qed

lemma star_pattern_eq: "star_pattern c = drop_bit 1 (uint c) AND 3"
  by (simp add: star_pattern_def drop_bit_and_6)

lemma draw_background_loop_fold:
  "draw_background_loop s rom b p i fb = fold (draw_star s rom b p) [i..0xFFF] fb"
proof (induction s rom b p i fb rule: draw_background_loop.induct)
  case (1 s rom blinking pattern i bitmap)
  show ?case
  proof (cases "i < 0x1000")
    case True
    then have "[i..0xFFF] = i # [i + 1..0xFFF]" by (simp add: upto_rec1)
    with True 1 show ?thesis by simp
  next
    case False
    then show ?thesis by simp
  qed
qed

lemma draw_star_spec:
  assumes "0 \<le> i"
  shows "draw_star s (memregion_gfx2 s) (uint (m_bg_ctrl s) AND 0x8 \<noteq> 0)
           (star_pattern (m_bg_ctrl s)) i fb = spec_star_write s i fb"
proof -
  have y: "0 \<le> drop_bit 4 i + 1" using assms by simp
  have i2: "0 \<le> i * 2" using assms by simp
  show ?thesis
    unfolding draw_star_def spec_star_write_def spec_star_def star_offs_def Let_def
    using y i2
    by (simp add: c_rem_nonneg and_0x80_bit and_8_bit star_pattern_eq bit_uint_iff)
qed

lemma draw_background_spec:
  "draw_background s bitmap cliprect = fold (spec_star_write s) [0..0xFFF] bitmap"
  unfolding draw_background_def Let_def draw_background_loop_fold
  by (rule fold_cong) (auto simp: draw_star_spec)

lemma star_pattern_range: "0 \<le> star_pattern c \<and> star_pattern c \<le> 3"
proof -
  have "drop_bit 1 (uint c) AND 3 \<le> 3" by (rule AND_upper2) simp
  moreover have "0 \<le> drop_bit 1 (uint c) AND 3" by simp
  ultimately show ?thesis by (simp add: star_pattern_eq)
qed

lemma star_offs_chunk:
  assumes "0 \<le> i" "i < 0x1000"
  shows "pattern * 0x2000 \<le> star_offs pattern i \<and> star_offs pattern i + 1 < (pattern + 1) * 0x2000"
proof -
  have "c_rem (i * 2) 0x2000 = i * 2" using assms by (simp add: c_rem_nonneg)
  then show ?thesis using assms by (simp add: star_offs_def)
qed

lemma and_0xf_range: "0 \<le> (i::int) AND 0xf \<and> i AND 0xf < 16"
proof -
  have "i AND 0xf \<le> 0xf" by (rule AND_upper2) simp
  then show ?thesis by simp
qed

lemma spec_star_cong:
  assumes c: "m_bg_ctrl s = m_bg_ctrl s'"
    and r: "memregion_gfx2 s = memregion_gfx2 s'"
    and b: "\<And>a. 0xE0 \<le> a \<Longrightarrow> a \<le> 0xFF \<Longrightarrow>
              (odd a \<longrightarrow> m_bgram s a = m_bgram s' a)
              \<and> (even a \<longrightarrow> bit (m_bgram s a) 7 = bit (m_bgram s' a) 7)"
  shows "spec_star s i = spec_star s' i"
proof -
  let ?k = "i AND 0xf"
  have k: "0 \<le> ?k" "?k < 16" using and_0xf_range [of i] by auto
  have e: "bit (m_bgram s (0xE0 + ?k * 2)) 7 = bit (m_bgram s' (0xE0 + ?k * 2)) 7"
    using b [of "0xE0 + ?k * 2"] k by simp
  have o: "m_bgram s (0xE0 + ?k * 2 + 1) = m_bgram s' (0xE0 + ?k * 2 + 1)"
    using b [of "0xE0 + ?k * 2 + 1"] k by simp
  show ?thesis
    unfolding spec_star_def Let_def using e o by (simp add: c r)
qed

lemma star_fold_other:
  "(\<forall>i\<in>set is. \<forall>pen. spec_star s i \<noteq> Some (y, x, pen)) \<Longrightarrow>
     fold (spec_star_write s) is fb y x = fb y x"
proof (induction "is" arbitrary: fb)
  case Nil
  then show ?case by simp
next
  case (Cons i "is")
  have "spec_star_write s i fb y x = fb y x"
    using Cons.prems by (auto simp: spec_star_write_def pix_set_def split: option.splits)
  with Cons show ?case by simp
qed

lemma star_fold_uniform:
  "(\<forall>i\<in>set is. \<forall>pen. spec_star s i = Some (y, x, pen) \<longrightarrow> pen = p) \<Longrightarrow>
   (\<exists>i\<in>set is. spec_star s i = Some (y, x, p)) \<or> fb y x = word_of_int p \<Longrightarrow>
     fold (spec_star_write s) is fb y x = word_of_int p"
proof (induction "is" arbitrary: fb)
  case Nil
  then show ?case by simp
next
  case (Cons i "is")
  have "(\<exists>j\<in>set is. spec_star s j = Some (y, x, p)) \<or> spec_star_write s i fb y x = word_of_int p"
    using Cons.prems by (auto simp: spec_star_write_def pix_set_def split: option.splits)
  with Cons show ?case by simp
qed

lemma spec_star_zero:
  assumes "m_bg_ctrl s = 0" "\<forall>a. m_bgram s a = 0" "\<forall>a. memregion_gfx2 s a = 0"
  shows "spec_star s i = Some ((drop_bit 4 i + 1) mod 256, 0x5B, 0)"
  using assms by (simp add: spec_star_def)

lemma zero_stars_column:
  assumes z: "m_bg_ctrl s = 0" "\<forall>a. m_bgram s a = 0" "\<forall>a. memregion_gfx2 s a = 0"
    and y: "0 \<le> y" "y < 256"
  shows "fold (spec_star_write s) [0..0xFFF] fb y 0x5B = 0"
proof -
  let ?i = "16 * ((y - 1) mod 256)"
  have r: "0 \<le> ?i" "?i \<le> 0xFFF" by simp_all
  have "drop_bit 4 ?i = (y - 1) mod 256" by (simp add: drop_bit_eq_div)
  moreover have "((y - 1) mod 256 + 1) mod 256 = y" using y by (simp add: mod_simps)
  ultimately have "spec_star s ?i = Some (y, 0x5B, 0)"
    by (simp add: spec_star_zero [OF z])
  with r have "\<exists>i\<in>set [0..0xFFF]. spec_star s i = Some (y, 0x5B, 0)"
    by (intro bexI [of _ ?i]) simp_all
  then show ?thesis
    using star_fold_uniform [of "[0..0xFFF]" s y "0x5B" 0 fb]
    by (simp add: spec_star_zero [OF z])
qed

lemma zero_stars_elsewhere:
  assumes z: "m_bg_ctrl s = 0" "\<forall>a. m_bgram s a = 0" "\<forall>a. memregion_gfx2 s a = 0"
    and p: "x \<noteq> 0x5B \<or> y < 0 \<or> 256 \<le> y"
  shows "fold (spec_star_write s) [0..0xFFF] fb y x = fb y x"
proof (rule star_fold_other)
  show "\<forall>i\<in>set [0..0xFFF]. \<forall>pen. spec_star s i \<noteq> Some (y, x, pen)"
  proof (intro ballI allI)
    fix i :: int and pen :: int
    have "0 \<le> (drop_bit 4 i + 1) mod 256" "(drop_bit 4 i + 1) mod 256 < 256" by simp_all
    with p show "spec_star s i \<noteq> Some (y, x, pen)"
      by (auto simp: spec_star_zero [OF z])
  qed
qed

lemma zero_background:
  assumes z: "m_bg_ctrl s = 0" "\<forall>a. m_bgram s a = 0" "\<forall>a. memregion_gfx2 s a = 0"
  shows "draw_background s fb clip y x = (if x = 0x5B \<and> 0 \<le> y \<and> y < 256 then 0 else fb y x)"
proof (cases "x = 0x5B \<and> 0 \<le> y \<and> y < 256")
  case True
  then show ?thesis using zero_stars_column [OF z, of y fb] by (simp add: draw_background_spec)
next
  case False
  then have "x \<noteq> 0x5B \<or> y < 0 \<or> 256 \<le> y" by auto
  then have "fold (spec_star_write s) [0..0xFFF] fb y x = fb y x"
    by (rule zero_stars_elsewhere [OF z])
  with False show ?thesis by (auto simp: draw_background_spec)
qed

lemma scenario_a_zero:
  "m_bg_ctrl scenario_a = 0" "\<forall>a. m_bgram scenario_a a = 0" "\<forall>a. memregion_gfx2 scenario_a a = 0"
  "\<forall>code tx ty. gfx_decode (m_gfxdecode_gfx0 scenario_a) code tx ty = 0xff"
  by (simp_all add: scenario_a_def blank_gfx_def)

section \<open>Sky Fox star field: the claims\<close>

text \<open>
  Claim C1. For every snapshot, \<open>draw_background\<close> runs over the star indices
  \<open>0 \<dots> 0xFFF\<close> in order and does for each what section 4.3 says: with
  \<open>pos\<close>, \<open>offs\<close>, \<open>pen\<close>, \<open>x\<close> and \<open>y\<close> computed as stated it writes
  \<open>fb[y mod 256, x mod 512] = pen\<close>, and it writes nothing for that index exactly when
  bit 3 of \<open>bg_ctrl\<close> is set and \<open>(bg_ctrl >> 4) & 3\<close> equals \<open>pen & 3\<close>.
\<close>

theorem draw_background_star_field:
  "draw_background s bitmap cliprect = fold (spec_star_write s) [0..0xFFF] bitmap"
proof -
  have "draw_background s bitmap cliprect
          = fold (draw_star s (memregion_gfx2 s) (uint (m_bg_ctrl s) AND 0x8 \<noteq> 0)
                    (star_pattern (m_bg_ctrl s))) [0..0xFFF] bitmap"
    unfolding draw_background_def Let_def draw_background_loop_fold by (rule refl)
  also have "\<dots> = fold (spec_star_write s) [0..0xFFF] bitmap"
  proof (rule fold_cong)
    fix i :: int
    assume "i \<in> set [0..0xFFF]"
    then have "0 \<le> i" by (simp only: set_upto atLeastAtMost_iff)
    then have "draw_star s (memregion_gfx2 s) (uint (m_bg_ctrl s) AND 0x8 \<noteq> 0)
                 (star_pattern (m_bg_ctrl s)) i fb = spec_star_write s i fb" for fb
      by (rule draw_star_spec)
    then show "draw_star s (memregion_gfx2 s) (uint (m_bg_ctrl s) AND 0x8 \<noteq> 0)
                 (star_pattern (m_bg_ctrl s)) i = spec_star_write s i"
      by (rule ext)
  qed (rule refl)+
  finally show ?thesis .
qed

text \<open>In scenario A the stars of row 1 leave pen 0 at column 0x5B.\<close>

theorem draw_background_star_field_witness:
  "draw_background scenario_a (\<lambda>y x. 0xff) full_clip 1 0x5B = 0"
  using draw_background_star_field [of scenario_a "\<lambda>y x. 0xff" full_clip]
    zero_stars_column [OF scenario_a_zero(1-3), of 1 "\<lambda>y x. 0xff"]
  by simp

text \<open>
  Claim C5, as amended. For every star index below 0x1000 and every value of the control
  register, the two ROM offsets read, \<open>offs\<close> and \<open>offs + 1\<close>, are non-negative and
  below 0x8000, the four chunks of 0x2000 bytes that the star pattern selects from. They
  are below 0x2000 only when the pattern bits 1 and 2 of the register are clear: with
  the bits clear both are below 0x2000, and with a bit set both are at or above 0x2000.
\<close>

theorem star_offs_within_rom:
  assumes "0 \<le> i" "i < 0x1000"
  shows "0 \<le> star_offs (star_pattern c) i \<and> star_offs (star_pattern c) i + 1 < 0x8000
         \<and> (uint c AND 0x6 = 0 \<longrightarrow> star_offs (star_pattern c) i + 1 < 0x2000)
         \<and> (uint c AND 0x6 \<noteq> 0 \<longrightarrow> 0x2000 \<le> star_offs (star_pattern c) i)
         \<and> (star_offs (star_pattern c) i < 0x2000 \<longleftrightarrow> uint c AND 0x6 = 0)
         \<and> (star_offs (star_pattern c) i + 1 < 0x2000 \<longleftrightarrow> uint c AND 0x6 = 0)"
proof -
  have r: "0 \<le> star_pattern c" "star_pattern c \<le> 3" using star_pattern_range by auto
  have c: "star_pattern c * 0x2000 \<le> star_offs (star_pattern c) i"
    "star_offs (star_pattern c) i + 1 < (star_pattern c + 1) * 0x2000"
    using star_offs_chunk [OF assms] by auto
  have z: "star_pattern c = 0" if "uint c AND 0x6 = 0"
    using that by (simp add: star_pattern_def)
  have nz: "1 \<le> star_pattern c" if "uint c AND 0x6 \<noteq> 0"
  proof -
    let ?m = "uint c AND 0x6"
    have "even ?m" by (simp add: even_and_iff)
    moreover have "0 \<le> ?m" by simp
    ultimately have "1 \<le> ?m div 2" using that by presburger
    then show ?thesis by (simp add: star_pattern_def drop_bit_eq_div)
  qed
  have lo: "0 \<le> star_offs (star_pattern c) i" using r c by linarith
  have hi: "star_offs (star_pattern c) i + 1 < 0x8000"
    using r c by (simp add: distrib_right)
  have below: "star_offs (star_pattern c) i + 1 < 0x2000" if "uint c AND 0x6 = 0"
    using c z [OF that] by simp
  have above: "0x2000 \<le> star_offs (star_pattern c) i" if "uint c AND 0x6 \<noteq> 0"
    using c(1) nz [OF that] by linarith
  have iff1: "star_offs (star_pattern c) i < 0x2000 \<longleftrightarrow> uint c AND 0x6 = 0"
    using below above by fastforce
  have iff2: "star_offs (star_pattern c) i + 1 < 0x2000 \<longleftrightarrow> uint c AND 0x6 = 0"
    using below above by fastforce
  from lo hi below above iff1 iff2 show ?thesis by blast
qed

theorem star_offs_within_rom_witness:
  "(0::int) \<le> 0xFFF \<and> (0xFFF::int) < 0x1000
   \<and> uint (0x06 :: u8) AND 0x6 = 0x6
   \<and> star_offs (star_pattern 0x06) 0xFFF + 1 = 0x7FFF
   \<and> star_offs (star_pattern 0x06) 0xFFF + 1 < 0x8000
   \<and> 0x2000 \<le> star_offs (star_pattern 0x06) 0xFFF
   \<and> uint (0x10 :: u8) AND 0x6 = 0 \<and> star_offs (star_pattern 0x10) 0xFFF + 1 < 0x2000"
  using star_offs_within_rom [of "0xFFF" "0x06"] star_offs_within_rom [of "0xFFF" "0x10"]
  by (simp add: star_offs_def star_pattern_def c_rem_def)

text \<open>
  The claim as stated fails: with star pattern 1 (control register 0x02) star 0 reads
  offset 0x2000.
\<close>

theorem star_offs_8k_counterexample:
  "\<not> star_offs (star_pattern 0x02) 0 < 0x2000"
  by (simp add: star_offs_def star_pattern_def c_rem_def)

text \<open>
  Claim C9. Two snapshots that agree on the control register, on the background ROM, on
  the odd bytes of work RAM in 0xE1 to 0xFF and on bit 7 of the even bytes in 0xE0 to
  0xFE give, for every star index, the same pixel write or the same suppression, and so
  the same result of \<open>draw_background\<close> on every bitmap, whatever the other bytes
  and bits of work RAM hold.
\<close>

theorem draw_background_reads_only_star_slots:
  assumes c: "m_bg_ctrl s = m_bg_ctrl s'"
    and r: "memregion_gfx2 s = memregion_gfx2 s'"
    and b: "\<forall>a. 0xE0 \<le> a \<and> a \<le> 0xFF \<longrightarrow>
              (odd a \<longrightarrow> m_bgram s a = m_bgram s' a)
              \<and> (even a \<longrightarrow> bit (m_bgram s a) 7 = bit (m_bgram s' a) 7)"
  shows "spec_star s = spec_star s'
         \<and> draw_background s bitmap cliprect = draw_background s' bitmap cliprect"
proof -
  have w: "spec_star s = spec_star s'"
    using spec_star_cong [OF c r] b by (intro ext) blast
  then have "spec_star_write s = spec_star_write s'"
    by (intro ext) (simp add: spec_star_write_def)
  then have "draw_background s bitmap cliprect = draw_background s' bitmap cliprect"
    by (simp only: draw_background_spec)
  with w show ?thesis by (rule conjI)
qed

theorem draw_background_reads_only_star_slots_witness:
  "m_bg_ctrl scenario_a = m_bg_ctrl scenario_a_ram
   \<and> memregion_gfx2 scenario_a = memregion_gfx2 scenario_a_ram
   \<and> m_bgram scenario_a 0xE0 \<noteq> m_bgram scenario_a_ram 0xE0
   \<and> m_bgram scenario_a 0x10 \<noteq> m_bgram scenario_a_ram 0x10
   \<and> draw_background scenario_a (\<lambda>y x. 0xff) full_clip
       = draw_background scenario_a_ram (\<lambda>y x. 0xff) full_clip"
proof -
  have b: "\<forall>a. 0xE0 \<le> a \<and> a \<le> 0xFF \<longrightarrow>
              (odd a \<longrightarrow> m_bgram scenario_a a = m_bgram scenario_a_ram a)
              \<and> (even a \<longrightarrow> bit (m_bgram scenario_a a) 7 = bit (m_bgram scenario_a_ram a) 7)"
    by (auto simp: scenario_a_def scenario_a_ram_def)
  have c: "m_bg_ctrl scenario_a = m_bg_ctrl scenario_a_ram"
    and r: "memregion_gfx2 scenario_a = memregion_gfx2 scenario_a_ram"
    by (simp_all add: scenario_a_ram_def)
  show ?thesis
    using draw_background_reads_only_star_slots [OF c r b, of "\<lambda>y x. 0xff" full_clip] c r
    by (simp add: scenario_a_def scenario_a_ram_def)
qed

section \<open>Sky Fox sprites: loops, blits and pixels\<close>

lemma upto_0_0: "[0..0::int] = [0]" by (simp add: upto.simps)
lemma upto_0_1: "[0..1::int] = [0, 1]" by (simp add: upto.simps)
lemma upto_0_3: "[0..3::int] = [0, 1, 2, 3]" by (simp add: upto.simps)

lemma draw_tiles_walk_1:
  "draw_tiles gfx clip 1 code fx fy x y fb
     = Some (fold (spec_blit_twice gfx clip fx fy x y) (spec_walk 1 code fx fy) fb)"
  by (cases fx; cases fy)
     (simp_all add: draw_tiles_def draw_sprite_rows.simps draw_sprite_row.simps spec_walk_def
        spec_order_def spec_blit_twice_def upto_0_0)

lemma draw_tiles_walk_2:
  "draw_tiles gfx clip 2 code fx fy x y fb
     = Some (fold (spec_blit_twice gfx clip fx fy x y) (spec_walk 2 code fx fy) fb)"
  by (cases fx; cases fy)
     (simp_all add: draw_tiles_def draw_sprite_rows.simps draw_sprite_row.simps spec_walk_def
        spec_order_def spec_blit_twice_def upto_0_1)

lemma draw_tiles_walk_4:
  "draw_tiles gfx clip 4 code fx fy x y fb
     = Some (fold (spec_blit_twice gfx clip fx fy x y) (spec_walk 4 code fx fy) fb)"
  by (cases fx; cases fy)
     (simp_all add: draw_tiles_def draw_sprite_rows.simps draw_sprite_row.simps spec_walk_def
        spec_order_def spec_blit_twice_def upto_0_3)

lemma spec_n_cases: "spec_n c = 1 \<or> spec_n c = 2 \<or> spec_n c = 4"
  by (simp add: spec_n_def)

lemma draw_tiles_walk:
  "draw_tiles gfx clip (spec_n c) code fx fy x y fb
     = Some (fold (spec_blit_twice gfx clip fx fy x y) (spec_walk (spec_n c) code fx fy) fb)"
  using spec_n_cases [of c] draw_tiles_walk_1 draw_tiles_walk_2 draw_tiles_walk_4
  by metis

lemma sprite_shift_spec: "sprite_shift s = spec_shift s"
  by (simp add: sprite_shift_def spec_shift_def and_0x80_bit bit_uint_iff)

lemma draw_sprite_tiles:
  "draw_sprite s offs bitmap cliprect =
     (let code16 = spec_code16 s offs; n = spec_n code16;
          flip_screen = bit (m_bg_ctrl s) 0
      in draw_tiles (m_gfxdecode_gfx0 s) cliprect n
           (spec_low_code code16 + spec_high_code s code16)
           (if flip_screen then \<not> spec_flip_x code16 else spec_flip_x code16)
           (if flip_screen then \<not> spec_flip_y code16 else spec_flip_y code16)
           (if flip_screen then m_screen_width s - spec_x s offs - n * 8 else spec_x s offs)
           (if flip_screen then m_screen_height s - spec_y s offs - n * 8 else spec_y s offs)
           bitmap)"
  by (simp add: draw_sprite_def Let_def sprite_shift_spec spec_code16_def spec_n_def
      spec_low_code_def spec_high_code_def spec_flip_x_def spec_flip_y_def spec_x_def spec_y_def
      and_1_bit bit_uint_iff)

lemma draw_sprite_eq_spec:
  "draw_sprite s offs bitmap cliprect = Some (spec_draw_sprite s cliprect offs bitmap)"
  by (simp add: draw_sprite_tiles spec_draw_sprite_def Let_def draw_tiles_walk)

lemma sprite_offsets_loop:
  assumes "k \<le> (m_spriteram_bytes s + 3) div 4"
  shows "draw_sprites_loop s (4 * int k) bitmap cliprect
         = Some (fold (spec_draw_sprite s cliprect)
                   (map (\<lambda>j. 4 * int j) [k..<(m_spriteram_bytes s + 3) div 4]) bitmap)"
  using assms
proof (induction "(m_spriteram_bytes s + 3) div 4 - k" arbitrary: k bitmap)
  case 0
  then have "\<not> 4 * int k < int (m_spriteram_bytes s)" by linarith
  with 0 show ?case by simp
next
  case (Suc d)
  let ?N = "(m_spriteram_bytes s + 3) div 4"
  from Suc.hyps(2) have lt: "k < ?N" by linarith
  then have b: "4 * int k < int (m_spriteram_bytes s)" by linarith
  have l: "[k..<?N] = k # [Suc k..<?N]" using lt by (simp add: upt_conv_Cons)
  have n: "4 * int k + 4 = 4 * int (Suc k)" by simp
  have ih: "draw_sprites_loop s (4 * int (Suc k)) (spec_draw_sprite s cliprect (4 * int k) bitmap) cliprect
        = Some (fold (spec_draw_sprite s cliprect) (map (\<lambda>j. 4 * int j) [Suc k..<?N])
                  (spec_draw_sprite s cliprect (4 * int k) bitmap))"
    using Suc.hyps(1) [of "Suc k"] Suc.hyps(2) lt by simp
  show ?case
    by (subst draw_sprites_loop.simps) (simp only: b if_True draw_sprite_eq_spec option.case n ih l list.map fold_simps)
qed

lemma draw_sprites_fold:
  "draw_sprites s bitmap cliprect
     = Some (fold (spec_draw_sprite s cliprect) (spec_sprite_offsets (m_spriteram_bytes s)) bitmap)"
  using sprite_offsets_loop [of 0 s bitmap cliprect]
  by (simp add: draw_sprites_def spec_sprite_offsets_def)

lemma transpen_pixel:
  "transpen gfx fb clip code color fx fy X Y t py px =
     (let tx = px - X; ty = py - Y; w = gfx_width gfx; h = gfx_height gfx;
          decoded = gfx_decode gfx (code mod gfx_elements gfx)
                      (if fx then w - 1 - tx else tx) (if fy then h - 1 - ty else ty)
      in if 0 \<le> tx \<and> tx < w \<and> 0 \<le> ty \<and> ty < h \<and> rect_contains clip px py \<and> decoded \<noteq> t
         then gfx_palette_base gfx color OR ucast decoded else fb py px)"
  by (simp add: transpen_def blit_def Let_def)

lemma transpen_outside_clip:
  "\<not> rect_contains clip px py \<Longrightarrow> transpen gfx fb clip code color fx fy X Y t py px = fb py px"
  by (simp add: transpen_pixel Let_def)

lemma transpen_blank:
  assumes "\<forall>code tx ty. gfx_decode gfx code tx ty = t"
  shows "transpen gfx fb clip code color fx fy X Y t = fb"
  using assms by (intro ext) (simp add: transpen_pixel Let_def)

lemma fold_pixel_unchanged:
  "(\<forall>a\<in>set as. \<forall>b. f a b py px = b py px) \<Longrightarrow> fold f as fb py px = fb py px"
  by (induction as arbitrary: fb) simp_all

lemma fold_pixel_uniform:
  "(\<forall>a\<in>set as. \<forall>b. f a b py px = v \<or> f a b py px = b py px) \<Longrightarrow>
   (\<exists>a\<in>set as. \<forall>b. f a b py px = v) \<or> fb py px = v \<Longrightarrow>
     fold f as fb py px = v"
proof (induction as arbitrary: fb)
  case Nil
  then show ?case by simp
next
  case (Cons a as)
  have "(\<exists>a'\<in>set as. \<forall>b. f a' b py px = v) \<or> f a fb py px = v"
    using Cons.prems by auto
  moreover have "\<forall>a\<in>set as. \<forall>b. f a b py px = v \<or> f a b py px = b py px"
    using Cons.prems by simp
  ultimately show ?case using Cons.IH [of "f a fb"] by simp
qed

lemma fold_pixel_last:
  assumes "as = pre @ a # post"
    and "\<forall>b. f a b py px = v"
    and "\<forall>a'\<in>set post. \<forall>b. f a' b py px = b py px"
  shows "fold f as fb py px = v"
proof -
  have "fold f post (f a (fold f pre fb)) py px = f a (fold f pre fb) py px"
    using assms(3) by (rule fold_pixel_unchanged)
  then show ?thesis using assms(1,2) by simp
qed

lemma sorted_split_later:
  assumes "sorted (pre @ a # post)" "distinct (pre @ a # post)"
  shows "\<forall>x\<in>set post. (a::int) < x"
  using assms by (auto simp: sorted_append order_less_le)

lemma spec_blit_twice_outside_clip:
  "\<not> rect_contains clip px py \<Longrightarrow> spec_blit_twice gfx clip fx fy x y t fb py px = fb py px"
  by (cases t) (simp add: spec_blit_twice_def transpen_outside_clip)

lemma spec_draw_sprite_outside_clip:
  "\<not> rect_contains clip px py \<Longrightarrow> spec_draw_sprite s clip offs fb py px = fb py px"
  unfolding spec_draw_sprite_def Let_def
  by (rule fold_pixel_unchanged) (simp add: spec_blit_twice_outside_clip)

lemma spec_blit_twice_blank:
  assumes "\<forall>code tx ty. gfx_decode gfx code tx ty = 0xff"
  shows "spec_blit_twice gfx clip fx fy x y t fb = fb"
  using assms by (cases t) (simp add: spec_blit_twice_def transpen_blank)

lemma fold_id: "(\<forall>a\<in>set as. \<forall>b. f a b = b) \<Longrightarrow> fold f as fb = fb"
  by (induction as arbitrary: fb) simp_all

lemma spec_draw_sprite_blank:
  assumes "\<forall>code tx ty. gfx_decode (m_gfxdecode_gfx0 s) code tx ty = 0xff"
  shows "spec_draw_sprite s clip offs fb = fb"
  unfolding spec_draw_sprite_def Let_def
  by (rule fold_id) (simp add: spec_blit_twice_blank [OF assms])

lemma draw_sprites_blank:
  assumes "\<forall>code tx ty. gfx_decode (m_gfxdecode_gfx0 s) code tx ty = 0xff"
  shows "draw_sprites s fb clip = Some fb"
  unfolding draw_sprites_fold
  by (simp add: fold_id spec_draw_sprite_blank [OF assms])

lemma draw_sprites_outside_clip:
  assumes "\<not> rect_contains clip px py"
  shows "\<exists>fb'. draw_sprites s fb clip = Some fb' \<and> fb' py px = fb py px"
  unfolding draw_sprites_fold
  by (simp add: fold_pixel_unchanged spec_draw_sprite_outside_clip [OF assms])

lemma sprite_offsets_sorted: "sorted (spec_sprite_offsets n) \<and> distinct (spec_sprite_offsets n)"
  by (auto simp: spec_sprite_offsets_def sorted_map distinct_map inj_on_def
      intro!: sorted_wrt_mono_rel [of _ "(<)"] )

lemma sprite_offsets_mem:
  "o' \<in> set (spec_sprite_offsets n) \<longleftrightarrow> 0 \<le> o' \<and> o' < int n \<and> o' mod 4 = 0"
proof
  assume "o' \<in> set (spec_sprite_offsets n)"
  then obtain k where "k < (n + 3) div 4" "o' = 4 * int k"
    by (auto simp: spec_sprite_offsets_def)
  then show "0 \<le> o' \<and> o' < int n \<and> o' mod 4 = 0" by auto
next
  assume a: "0 \<le> o' \<and> o' < int n \<and> o' mod 4 = 0"
  then have "o' = 4 * int (nat (o' div 4))" by auto
  moreover have "nat (o' div 4) < (n + 3) div 4" using a by auto
  ultimately show "o' \<in> set (spec_sprite_offsets n)"
    unfolding spec_sprite_offsets_def by (metis (no_types, lifting) atLeast0LessThan image_eqI lessThan_iff list.set_map set_upt)
qed

section \<open>Sky Fox sprites: the claims\<close>

text \<open>
  Claim C2. For every sprite-table entry at offset \<open>offs\<close>, \<open>draw_sprite\<close> returns, and
  its result is the one section 4.4 describes: with \<open>code16\<close> read from bytes 3 and 2,
  \<open>n\<close> and \<open>low_code\<close> selected by \<open>code16 & 0x88\<close>, \<open>high_code\<close> formed with shift
  3 or 4 after bit 7 of the control register, it starts at \<open>code = low_code + high_code\<close>
  and walks the n-by-n grid, rows and columns reversed under their flip flags, the code
  incremented after every tile and advanced by 2 after every row exactly when \<open>n = 2\<close>,
  each tile blitted at \<open>(dx*8 + x, dy*8 + y)\<close> and at \<open>(dx*8 + x, dy*8 + y - 256)\<close>
  with transparent index 0xFF.
\<close>

theorem draw_sprite_follows_spec:
  "draw_sprite s offs bitmap cliprect = Some (spec_draw_sprite s cliprect offs bitmap)"
proof -
  let ?c = "spec_code16 s offs"
  have "draw_tiles gfx cliprect (spec_n ?c) code fx fy x y bitmap
          = Some (fold (spec_blit_twice gfx cliprect fx fy x y) (spec_walk (spec_n ?c) code fx fy) bitmap)"
    for gfx code fx fy x y
    using spec_n_cases [of ?c]
    by (auto simp: draw_tiles_walk_1 draw_tiles_walk_2 draw_tiles_walk_4)
  then show ?thesis
    by (simp add: draw_sprite_tiles spec_draw_sprite_def Let_def)
qed

text \<open>
  The 16 by 16 sprite of \<open>scenario_16\<close> walks the codes 2, 3, 6, 7: the code skips
  two after the first row.
\<close>

theorem draw_sprite_follows_spec_witness:
  "draw_sprite scenario_16 0 grey_bitmap full_clip
     = Some (fold (spec_blit_twice solid_gfx full_clip False False 0x60 0x20)
               [(0, 0, 2), (1, 0, 3), (0, 1, 6), (1, 1, 7)] grey_bitmap)"
  using draw_sprite_follows_spec [of scenario_16 0 grey_bitmap full_clip]
  by (simp add: spec_draw_sprite_def scenario_16_def scenario_a_def spec_code16_def spec_n_def
      spec_low_code_def spec_high_code_def spec_shift_def spec_x_def spec_y_def spec_flip_x_def
      spec_flip_y_def spec_walk_def spec_order_def upto_0_1)

text \<open>
  Claim C4. When bit 0 of the control register (flip-screen) is set, every tile of a sprite
  is blitted from the destination \<open>x := width - x - n*8\<close>, \<open>y := height - y - n*8\<close>
  with both flip flags inverted: the loops of \<open>draw_tiles\<close>, the part of the body that
  blits, are entered with the transformed values, and what they return is the bitmap with
  the tiles of the walk blitted (twice each) from that destination under the inverted flags.
  When the bit is clear, the same holds with the position and the flip flags decoded from
  the entry, unchanged.
\<close>

theorem draw_sprite_flip_screen:
  "(bit (m_bg_ctrl s) 0 \<longrightarrow>
      draw_sprite s offs bitmap cliprect
        = draw_tiles (m_gfxdecode_gfx0 s) cliprect (spec_n (spec_code16 s offs))
            (spec_low_code (spec_code16 s offs) + spec_high_code s (spec_code16 s offs))
            (\<not> spec_flip_x (spec_code16 s offs)) (\<not> spec_flip_y (spec_code16 s offs))
            (m_screen_width s - spec_x s offs - spec_n (spec_code16 s offs) * 8)
            (m_screen_height s - spec_y s offs - spec_n (spec_code16 s offs) * 8) bitmap
      \<and> draw_sprite s offs bitmap cliprect
        = Some (fold (spec_blit_twice (m_gfxdecode_gfx0 s) cliprect
                        (\<not> spec_flip_x (spec_code16 s offs)) (\<not> spec_flip_y (spec_code16 s offs))
                        (m_screen_width s - spec_x s offs - spec_n (spec_code16 s offs) * 8)
                        (m_screen_height s - spec_y s offs - spec_n (spec_code16 s offs) * 8))
                  (spec_walk (spec_n (spec_code16 s offs))
                     (spec_low_code (spec_code16 s offs) + spec_high_code s (spec_code16 s offs))
                     (\<not> spec_flip_x (spec_code16 s offs)) (\<not> spec_flip_y (spec_code16 s offs)))
                  bitmap))
   \<and> (\<not> bit (m_bg_ctrl s) 0 \<longrightarrow>
      draw_sprite s offs bitmap cliprect
        = draw_tiles (m_gfxdecode_gfx0 s) cliprect (spec_n (spec_code16 s offs))
            (spec_low_code (spec_code16 s offs) + spec_high_code s (spec_code16 s offs))
            (spec_flip_x (spec_code16 s offs)) (spec_flip_y (spec_code16 s offs))
            (spec_x s offs) (spec_y s offs) bitmap
      \<and> draw_sprite s offs bitmap cliprect
        = Some (fold (spec_blit_twice (m_gfxdecode_gfx0 s) cliprect
                        (spec_flip_x (spec_code16 s offs)) (spec_flip_y (spec_code16 s offs))
                        (spec_x s offs) (spec_y s offs))
                  (spec_walk (spec_n (spec_code16 s offs))
                     (spec_low_code (spec_code16 s offs) + spec_high_code s (spec_code16 s offs))
                     (spec_flip_x (spec_code16 s offs)) (spec_flip_y (spec_code16 s offs)))
                  bitmap))"
proof -
  let ?c = "spec_code16 s offs"
  have enter: "draw_sprite s offs bitmap cliprect
      = (if bit (m_bg_ctrl s) 0
         then draw_tiles (m_gfxdecode_gfx0 s) cliprect (spec_n ?c)
                (spec_low_code ?c + spec_high_code s ?c) (\<not> spec_flip_x ?c) (\<not> spec_flip_y ?c)
                (m_screen_width s - spec_x s offs - spec_n ?c * 8)
                (m_screen_height s - spec_y s offs - spec_n ?c * 8) bitmap
         else draw_tiles (m_gfxdecode_gfx0 s) cliprect (spec_n ?c)
                (spec_low_code ?c + spec_high_code s ?c) (spec_flip_x ?c) (spec_flip_y ?c)
                (spec_x s offs) (spec_y s offs) bitmap)"
    by (simp add: draw_sprite_def Let_def sprite_shift_spec spec_code16_def spec_n_def
        spec_low_code_def spec_high_code_def spec_flip_x_def spec_flip_y_def spec_x_def
        spec_y_def and_1_bit bit_uint_iff)
  have blits: "draw_tiles gfx cliprect (spec_n ?c) code fx fy x y bitmap
      = Some (fold (spec_blit_twice gfx cliprect fx fy x y) (spec_walk (spec_n ?c) code fx fy) bitmap)"
    for gfx code fx fy x y
    using spec_n_cases [of ?c]
    by (auto simp: draw_tiles_walk_1 draw_tiles_walk_2 draw_tiles_walk_4)
  show ?thesis
  proof (cases "bit (m_bg_ctrl s) 0")
    case True
    then show ?thesis using enter by (simp only: if_True blits simp_thms)
  next
    case False
    then show ?thesis using enter by (simp only: if_False blits simp_thms)
  qed
qed

text \<open>
  Scenario C on a 512 by 256 screen: the entry decodes to \<open>x = 0x60\<close>, \<open>y = 0x20\<close>,
  no flip, one tile of code 0x500. Under flip-screen the tile is blitted at
  \<open>(512 - 0x60 - 8, 256 - 0x20 - 8) = (408, 216)\<close>, turned both ways: its marked pixel
  \<open>(0, 0)\<close> lands in the far corner, column 415 of row 223, and nothing is drawn at
  the decoded position. With flip-screen clear the tile stands upright at the decoded
  position and nothing is drawn at the reflected one.
\<close>

theorem draw_sprite_flip_screen_witness:
  "bit (m_bg_ctrl scenario_c) 0
   \<and> spec_x scenario_c 0 = 0x60 \<and> spec_y scenario_c 0 = 0x20
   \<and> spec_n (spec_code16 scenario_c 0) = 1
   \<and> \<not> spec_flip_x (spec_code16 scenario_c 0) \<and> \<not> spec_flip_y (spec_code16 scenario_c 0)
   \<and> draw_sprite scenario_c 0 grey_bitmap full_clip
       = Some (fold (spec_blit_twice marked_gfx full_clip True True 408 216) [(0, 0, 0x500)]
                 grey_bitmap)
   \<and> rendered_pixel (draw_sprite scenario_c 0 grey_bitmap full_clip) 223 415 = Some 0x07
   \<and> rendered_pixel (draw_sprite scenario_c 0 grey_bitmap full_clip) 216 408 = Some 0x03
   \<and> rendered_pixel (draw_sprite scenario_c 0 grey_bitmap full_clip) 0x20 0x60 = Some 0x55
   \<and> \<not> bit (m_bg_ctrl scenario_c_upright) 0
   \<and> draw_sprite scenario_c_upright 0 grey_bitmap full_clip
       = Some (fold (spec_blit_twice marked_gfx full_clip False False 0x60 0x20) [(0, 0, 0x500)]
                 grey_bitmap)
   \<and> rendered_pixel (draw_sprite scenario_c_upright 0 grey_bitmap full_clip) 0x20 0x60 = Some 0x07
   \<and> rendered_pixel (draw_sprite scenario_c_upright 0 grey_bitmap full_clip) 0x27 0x67 = Some 0x03
   \<and> rendered_pixel (draw_sprite scenario_c_upright 0 grey_bitmap full_clip) 216 408 = Some 0x55"
proof -
  have c: "spec_code16 scenario_c 0 = 0x5000" "spec_code16 scenario_c_upright 0 = 0x5000"
    by (simp_all add: spec_code16_def scenario_c_upright_def scenario_c_def)
  have d: "spec_x scenario_c 0 = 0x60" "spec_y scenario_c 0 = 0x20"
    "spec_x scenario_c_upright 0 = 0x60" "spec_y scenario_c_upright 0 = 0x20"
    by (simp_all add: spec_x_def spec_y_def c) (simp_all add: scenario_c_upright_def scenario_c_def)
  have f: "bit (m_bg_ctrl scenario_c) 0" "\<not> bit (m_bg_ctrl scenario_c_upright) 0"
    "m_gfxdecode_gfx0 scenario_c = marked_gfx" "m_gfxdecode_gfx0 scenario_c_upright = marked_gfx"
    "m_screen_width scenario_c = 512" "m_screen_height scenario_c = 256"
    by (simp_all add: scenario_c_upright_def scenario_c_def scenario_a_def)
  have h: "spec_high_code scenario_c 0x5000 = 0x500" "spec_high_code scenario_c_upright 0x5000 = 0x500"
    by (simp_all add: spec_high_code_def spec_shift_def)
  have n: "spec_n 0x5000 = 1" "spec_low_code 0x5000 = 0" "\<not> spec_flip_x 0x5000" "\<not> spec_flip_y 0x5000"
    by (simp_all add: spec_n_def spec_low_code_def spec_flip_x_def spec_flip_y_def)
  have w: "spec_walk 1 0x500 fx fy = [(0, 0, 0x500)]" for fx fy
    by (simp add: spec_walk_def spec_order_def upto_0_0)
  have flipped: "draw_sprite scenario_c 0 grey_bitmap full_clip
       = Some (fold (spec_blit_twice marked_gfx full_clip True True 408 216) [(0, 0, 0x500)]
                 grey_bitmap)"
    using draw_sprite_flip_screen [of scenario_c 0 grey_bitmap full_clip,
        THEN conjunct1, rule_format, OF f(1), THEN conjunct2]
    by (simp add: c d f h n w)
  have upright: "draw_sprite scenario_c_upright 0 grey_bitmap full_clip
       = Some (fold (spec_blit_twice marked_gfx full_clip False False 0x60 0x20) [(0, 0, 0x500)]
                 grey_bitmap)"
    using draw_sprite_flip_screen [of scenario_c_upright 0 grey_bitmap full_clip,
        THEN conjunct2, rule_format, OF f(2), THEN conjunct2]
    by (simp add: c d f h n w)
  have px: "spec_blit_twice marked_gfx full_clip True True 408 216 (0, 0, 0x500) grey_bitmap 223 415 = 0x07"
    "spec_blit_twice marked_gfx full_clip True True 408 216 (0, 0, 0x500) grey_bitmap 216 408 = 0x03"
    "spec_blit_twice marked_gfx full_clip True True 408 216 (0, 0, 0x500) grey_bitmap 0x20 0x60 = 0x55"
    "spec_blit_twice marked_gfx full_clip False False 0x60 0x20 (0, 0, 0x500) grey_bitmap 0x20 0x60 = 0x07"
    "spec_blit_twice marked_gfx full_clip False False 0x60 0x20 (0, 0, 0x500) grey_bitmap 0x27 0x67 = 0x03"
    "spec_blit_twice marked_gfx full_clip False False 0x60 0x20 (0, 0, 0x500) grey_bitmap 216 408 = 0x55"
    by (simp_all add: spec_blit_twice_def transpen_pixel marked_gfx_def full_clip_def
        rect_contains_def grey_bitmap_def)
  show ?thesis
    by (simp add: flipped upright px rendered_pixel_def c d f n)
qed

lemma transpen_blank_tile:
  assumes "\<forall>tx ty. gfx_decode gfx (code mod gfx_elements gfx) tx ty = t"
  shows "transpen gfx fb clip code color fx fy X Y t = fb"
  using assms by (intro ext) (simp add: transpen_pixel Let_def)

lemma rendered_pixel_Some [simp]: "rendered_pixel (Some fb) y x = Some (fb y x)"
  by (simp add: rendered_pixel_def)

lemma draw_sprite_zero_entry:
  assumes "m_spriteram s offs = 0" "m_spriteram s (offs + 1) = 0"
    "m_spriteram s (offs + 2) = 0" "m_spriteram s (offs + 3) = 0"
  shows "draw_sprite s offs bitmap cliprect =
           Some (let fs = bit (m_bg_ctrl s) 0;
                     X = (if fs then m_screen_width s - 8 else 0);
                     Y = (if fs then m_screen_height s - 8 else 0);
                     gfx = m_gfxdecode_gfx0 s
                 in transpen gfx (transpen gfx bitmap cliprect 0 0 fs fs X Y 0xff)
                      cliprect 0 0 fs fs X (Y - 256) 0xff)"
proof -
  have c: "spec_code16 s offs = 0" using assms by (simp add: spec_code16_def)
  have x: "spec_x s offs = 0" "spec_y s offs = 0" using assms c by (simp_all add: spec_x_def spec_y_def)
  show ?thesis
    by (simp add: draw_sprite_tiles Let_def c x spec_n_def spec_low_code_def spec_high_code_def
        spec_flip_x_def spec_flip_y_def draw_tiles_walk_1 spec_walk_def spec_order_def upto_0_0
        spec_blit_twice_def)
qed

lemma draw_sprites_last_writer:
  assumes mem: "offs \<in> set (spec_sprite_offsets (m_spriteram_bytes s))"
    and op: "\<forall>b. spec_draw_sprite s cliprect offs b py px = v"
    and later: "\<forall>o'\<in>set (spec_sprite_offsets (m_spriteram_bytes s)). offs < o' \<longrightarrow>
                  (\<forall>b. spec_draw_sprite s cliprect o' b py px = b py px)"
  shows "fold (spec_draw_sprite s cliprect) (spec_sprite_offsets (m_spriteram_bytes s)) bitmap py px = v"
proof -
  let ?os = "spec_sprite_offsets (m_spriteram_bytes s)"
  obtain pre post where sp: "?os = pre @ offs # post" using mem by (auto dest: split_list)
  have "sorted (pre @ offs # post)" "distinct (pre @ offs # post)"
    using sprite_offsets_sorted [of "m_spriteram_bytes s"] sp by simp_all
  then have gt: "\<forall>x\<in>set post. offs < x" by (rule sorted_split_later)
  have "\<forall>a'\<in>set post. \<forall>b. spec_draw_sprite s cliprect a' b py px = b py px"
  proof
    fix a' assume a: "a' \<in> set post"
    then have "a' \<in> set ?os" using sp by simp
    with gt a later show "\<forall>b. spec_draw_sprite s cliprect a' b py px = b py px" by blast
  qed
  with sp op show ?thesis by (rule fold_pixel_last)
qed

text \<open>
  Claim C10, as amended. \<open>draw_sprites\<close> runs over the whole sprite table in increasing
  offset order (0, 4, 8, ...) and draws every entry: no encoding disables a sprite. An
  all-zero entry is blitted as one 8 by 8 tile of code 0, at (0, 0) when flip-screen is
  clear and at (width - 8, height - 8) with both flips set when bit 0 of the control
  register is set, with its wrap clone 256 rows above. Wherever an entry writes an opaque
  pixel and no entry at a larger offset touches that pixel, that entry's value is the
  final framebuffer value, whatever the entries at smaller offsets drew there.
\<close>

theorem draw_sprites_larger_offset_wins:
  "draw_sprites s bitmap cliprect
     = Some (fold (spec_draw_sprite s cliprect) (spec_sprite_offsets (m_spriteram_bytes s)) bitmap)
   \<and> draw_sprite s offs bitmap cliprect = Some (spec_draw_sprite s cliprect offs bitmap)
   \<and> (m_spriteram s offs = 0 \<and> m_spriteram s (offs + 1) = 0
        \<and> m_spriteram s (offs + 2) = 0 \<and> m_spriteram s (offs + 3) = 0 \<longrightarrow>
       draw_sprite s offs bitmap cliprect =
         Some (let fs = bit (m_bg_ctrl s) 0;
                   X = (if fs then m_screen_width s - 8 else 0);
                   Y = (if fs then m_screen_height s - 8 else 0);
                   gfx = m_gfxdecode_gfx0 s
               in transpen gfx (transpen gfx bitmap cliprect 0 0 fs fs X Y 0xff)
                    cliprect 0 0 fs fs X (Y - 256) 0xff))
   \<and> (offs \<in> set (spec_sprite_offsets (m_spriteram_bytes s))
        \<and> (\<forall>b. rendered_pixel (draw_sprite s offs b cliprect) py px = Some v)
        \<and> (\<forall>o'\<in>set (spec_sprite_offsets (m_spriteram_bytes s)). offs < o' \<longrightarrow>
              (\<forall>b. rendered_pixel (draw_sprite s o' b cliprect) py px = Some (b py px))) \<longrightarrow>
       rendered_pixel (draw_sprites s bitmap cliprect) py px = Some v)"
proof (intro conjI impI)
  show "draw_sprites s bitmap cliprect
     = Some (fold (spec_draw_sprite s cliprect) (spec_sprite_offsets (m_spriteram_bytes s)) bitmap)"
    by (rule draw_sprites_fold)
  show "draw_sprite s offs bitmap cliprect = Some (spec_draw_sprite s cliprect offs bitmap)"
    by (rule draw_sprite_eq_spec)
next
  assume "m_spriteram s offs = 0 \<and> m_spriteram s (offs + 1) = 0
        \<and> m_spriteram s (offs + 2) = 0 \<and> m_spriteram s (offs + 3) = 0"
  then show "draw_sprite s offs bitmap cliprect =
         Some (let fs = bit (m_bg_ctrl s) 0;
                   X = (if fs then m_screen_width s - 8 else 0);
                   Y = (if fs then m_screen_height s - 8 else 0);
                   gfx = m_gfxdecode_gfx0 s
               in transpen gfx (transpen gfx bitmap cliprect 0 0 fs fs X Y 0xff)
                    cliprect 0 0 fs fs X (Y - 256) 0xff)"
    by (intro draw_sprite_zero_entry) simp_all
next
  assume a: "offs \<in> set (spec_sprite_offsets (m_spriteram_bytes s))
        \<and> (\<forall>b. rendered_pixel (draw_sprite s offs b cliprect) py px = Some v)
        \<and> (\<forall>o'\<in>set (spec_sprite_offsets (m_spriteram_bytes s)). offs < o' \<longrightarrow>
              (\<forall>b. rendered_pixel (draw_sprite s o' b cliprect) py px = Some (b py px)))"
  then have "fold (spec_draw_sprite s cliprect) (spec_sprite_offsets (m_spriteram_bytes s)) bitmap py px = v"
    using draw_sprites_last_writer [of offs s cliprect py px v bitmap]
    by (simp add: draw_sprite_eq_spec)
  then show "rendered_pixel (draw_sprites s bitmap cliprect) py px = Some v"
    by (simp add: draw_sprites_fold)
qed

lemma scenario_overlap_entry_4:
  "spec_draw_sprite scenario_overlap full_clip 4 b 5 5 = 2"
  by (simp add: spec_draw_sprite_def scenario_overlap_def scenario_a_def spec_code16_def spec_n_def
      spec_low_code_def spec_high_code_def spec_shift_def spec_x_def spec_y_def spec_flip_x_def
      spec_flip_y_def spec_walk_def spec_order_def upto_0_0 spec_blit_twice_def transpen_pixel
      solid_gfx_def full_clip_def rect_contains_def)

lemma scenario_overlap_entry_0:
  "spec_draw_sprite scenario_overlap full_clip 0 b 5 5 = 1"
  by (simp add: spec_draw_sprite_def scenario_overlap_def scenario_a_def spec_code16_def spec_n_def
      spec_low_code_def spec_high_code_def spec_shift_def spec_x_def spec_y_def spec_flip_x_def
      spec_flip_y_def spec_walk_def spec_order_def upto_0_0 spec_blit_twice_def transpen_pixel
      solid_gfx_def full_clip_def rect_contains_def)

lemma scenario_overlap_later:
  assumes "8 \<le> offs" "offs mod 4 = 0"
  shows "spec_draw_sprite scenario_overlap clip offs b = b"
proof -
  have m: "(offs + 3) mod 4 = 3" "(offs + 2) mod 4 = 2" "(offs + 1) mod 4 = 1"
    using assms by presburger+
  have r: "m_spriteram scenario_overlap (offs + 3) = 2" "m_spriteram scenario_overlap (offs + 2) = 0"
    "m_spriteram scenario_overlap (offs + 1) = 0" "m_spriteram scenario_overlap offs = 0"
    using assms m by (simp_all add: scenario_overlap_def)
  have c: "spec_code16 scenario_overlap offs = 0x200" by (simp add: spec_code16_def r)
  have g: "m_gfxdecode_gfx0 scenario_overlap = solid_gfx" by (simp add: scenario_overlap_def)
  have t: "transpen solid_gfx fb clip 0x20 color fx fy X Y 0xff = fb" for fb color fx fy X Y
    by (rule transpen_blank_tile) (simp add: solid_gfx_def)
  show ?thesis
    by (simp add: spec_draw_sprite_def Let_def c g spec_n_def spec_low_code_def spec_high_code_def
        spec_shift_def spec_walk_def spec_order_def upto_0_0 spec_blit_twice_def t)
qed

text \<open>
  In \<open>scenario_overlap\<close> pixel (5, 5) is opaque in entry 0 (value 1) and in entry 4
  (value 2): the frame holds 2.
\<close>

theorem draw_sprites_larger_offset_wins_witness:
  "m_spriteram scenario_overlap 0 = 0 \<and> m_spriteram scenario_overlap 1 = 0
   \<and> m_spriteram scenario_overlap 2 = 0 \<and> m_spriteram scenario_overlap 3 = 0
   \<and> draw_sprite scenario_overlap 0 grey_bitmap full_clip
       = Some (transpen solid_gfx (transpen solid_gfx grey_bitmap full_clip 0 0 False False 0 0 0xff)
                 full_clip 0 0 False False 0 (- 256) 0xff)
   \<and> rendered_pixel (draw_sprite scenario_overlap 0 grey_bitmap full_clip) 5 5 = Some 1
   \<and> 4 \<in> set (spec_sprite_offsets (m_spriteram_bytes scenario_overlap))
   \<and> rendered_pixel (draw_sprite scenario_overlap 4 grey_bitmap full_clip) 5 5 = Some 2
   \<and> rendered_pixel (draw_sprites scenario_overlap grey_bitmap full_clip) 5 5 = Some 2"
proof -
  let ?s = scenario_overlap
  have z: "m_spriteram ?s 0 = 0 \<and> m_spriteram ?s (0 + 1) = 0
        \<and> m_spriteram ?s (0 + 2) = 0 \<and> m_spriteram ?s (0 + 3) = 0"
    by (simp add: scenario_overlap_def)
  have mem: "4 \<in> set (spec_sprite_offsets (m_spriteram_bytes ?s))"
    by (simp add: sprite_offsets_mem scenario_overlap_def scenario_a_def)
  have op: "\<forall>b. rendered_pixel (draw_sprite ?s 4 b full_clip) 5 5 = Some 2"
    by (simp add: draw_sprite_eq_spec scenario_overlap_entry_4)
  have later: "\<forall>o'\<in>set (spec_sprite_offsets (m_spriteram_bytes ?s)). 4 < o' \<longrightarrow>
              (\<forall>b. rendered_pixel (draw_sprite ?s o' b full_clip) 5 5 = Some (b 5 5))"
  proof (intro ballI impI allI)
    fix o' b assume "o' \<in> set (spec_sprite_offsets (m_spriteram_bytes ?s))" "4 < o'"
    then have "8 \<le> o'" "o' mod 4 = 0" by (auto simp: sprite_offsets_mem)
    then show "rendered_pixel (draw_sprite ?s o' b full_clip) 5 5 = Some (b 5 5)"
      by (simp add: draw_sprite_eq_spec scenario_overlap_later)
  qed
  have e0: "rendered_pixel (draw_sprite ?s 0 grey_bitmap full_clip) 5 5 = Some 1"
    by (simp add: draw_sprite_eq_spec scenario_overlap_entry_0)
  note t0 = draw_sprites_larger_offset_wins [of ?s grey_bitmap full_clip 0 5 5 2]
  note t4 = draw_sprites_larger_offset_wins [of ?s grey_bitmap full_clip 4 5 5 2]
  have g: "m_gfxdecode_gfx0 ?s = solid_gfx" "\<not> bit (m_bg_ctrl ?s) 0"
    by (simp_all add: scenario_overlap_def scenario_a_def)
  have "draw_sprite ?s 0 grey_bitmap full_clip
       = Some (transpen solid_gfx (transpen solid_gfx grey_bitmap full_clip 0 0 False False 0 0 0xff)
                 full_clip 0 0 False False 0 (- 256) 0xff)"
    using t0 [THEN conjunct2, THEN conjunct2, THEN conjunct1, rule_format, OF z]
    by (simp only: g Let_def if_False diff_0)
  moreover from t4 mem op later
  have "rendered_pixel (draw_sprites ?s grey_bitmap full_clip) 5 5 = Some 2" by blast
  ultimately show ?thesis using z mem op e0 by simp
qed

text \<open>
  The claim as stated fails under flip-screen: on a 512 by 256 screen the all-zero entry
  leaves pixel (0, 0) alone and draws tile 0 at (504, 248).
\<close>

theorem zero_entry_flip_screen_counterexample:
  "m_spriteram scenario_flip_zero 0 = 0 \<and> m_spriteram scenario_flip_zero 1 = 0
   \<and> m_spriteram scenario_flip_zero 2 = 0 \<and> m_spriteram scenario_flip_zero 3 = 0
   \<and> rect_contains full_clip 0 0
   \<and> rendered_pixel (draw_sprite scenario_flip_zero 0 grey_bitmap full_clip) 0 0 = Some 0x55
   \<and> rendered_pixel (draw_sprite scenario_flip_zero 0 grey_bitmap full_clip) 248 504 = Some 0x01"
  by (simp add: draw_sprite_eq_spec spec_draw_sprite_def scenario_flip_zero_def scenario_a_def
      spec_code16_def spec_n_def
      spec_low_code_def spec_high_code_def spec_shift_def spec_x_def spec_y_def spec_flip_x_def
      spec_flip_y_def spec_walk_def spec_order_def upto_0_0 spec_blit_twice_def transpen_pixel
      solid_gfx_def full_clip_def rect_contains_def grey_bitmap_def)

section \<open>Sky Fox frames: the claims\<close>

text \<open>
  Claim C6, as amended. For a snapshot with control register 0, every work-RAM byte zero
  and a background ROM of zeros, whose sprites have no opaque pixel, rendering the frame
  leaves every pixel of the clip rectangle equal to the clear colour 0xFF except the
  pixels of column 0x5B in rows 0 to 255: there the stars, all of pen 0 at
  \<open>x = 0*2 + 0 + 0x5B\<close>, leave palette index 0.
\<close>

theorem empty_star_field_frame:
  assumes z: "m_bg_ctrl s = 0" "\<forall>a. m_bgram s a = 0" "\<forall>a. memregion_gfx2 s a = 0"
    and t: "\<forall>code tx ty. gfx_decode (m_gfxdecode_gfx0 s) code tx ty = 0xff"
    and c: "rect_contains cliprect x y"
  shows "rendered_pixel (screen_update_skyfox s bitmap cliprect) y x
           = Some (if x = 0x5B \<and> 0 \<le> y \<and> y < 256 then 0x00 else 0xff)"
proof -
  have "draw_background s (fill bitmap 0xff cliprect) cliprect y x
          = (if x = 0x5B \<and> 0 \<le> y \<and> y < 256 then 0x00 else 0xff)"
    using c by (simp add: zero_background [OF z] fill_def)
  then show ?thesis
    by (simp add: screen_update_skyfox_def draw_sprites_blank [OF t])
qed

theorem empty_star_field_frame_witness:
  "m_bg_ctrl scenario_a = 0 \<and> (\<forall>a. m_bgram scenario_a a = 0)
   \<and> (\<forall>a. memregion_gfx2 scenario_a a = 0)
   \<and> (\<forall>code tx ty. gfx_decode (m_gfxdecode_gfx0 scenario_a) code tx ty = 0xff)
   \<and> rect_contains full_clip 0x5B 7 \<and> rect_contains full_clip 0x5C 7
   \<and> rendered_pixel (screen_update_skyfox scenario_a grey_bitmap full_clip) 7 0x5B = Some 0
   \<and> rendered_pixel (screen_update_skyfox scenario_a grey_bitmap full_clip) 7 0x5C = Some 0xff"
  using empty_star_field_frame [OF scenario_a_zero, of full_clip "0x5B" 7 grey_bitmap]
    empty_star_field_frame [OF scenario_a_zero, of full_clip "0x5C" 7 grey_bitmap]
    scenario_a_zero
  by (simp add: full_clip_def rect_contains_def)

text \<open>
  The claim as stated fails: in scenario A, on the whole 512 by 256 bitmap, the pixel of
  row 1 and column 0x5B holds 0, not 0xFF.
\<close>

theorem empty_star_field_counterexample:
  "rendered_pixel (screen_update_skyfox scenario_a grey_bitmap full_clip) 1 0x5B = Some 0x00"
proof -
  have "draw_background scenario_a (fill grey_bitmap 0xff full_clip) full_clip 1 0x5B = 0"
    by (simp add: zero_background [OF scenario_a_zero(1-3)])
  then show ?thesis
    by (simp add: screen_update_skyfox_def draw_sprites_blank [OF scenario_a_zero(4)])
qed

text \<open>
  Claim C3 at a failing input. With the clip rectangle \<open>[0, 8) x [0, 8)\<close> the pixel of
  row 100 and column 0x5B lies outside the clip and holds 0x55 before the call; after the
  call it holds 0: \<open>draw_background\<close> wrote it, although \<open>fill\<close> and the sprite
  blits of the same frame keep to the clip.
\<close>

theorem star_field_ignores_clip:
  "\<not> rect_contains small_clip 0x5B 100
   \<and> grey_bitmap 100 0x5B = 0x55
   \<and> rendered_pixel (screen_update_skyfox scenario_a grey_bitmap small_clip) 100 0x5B = Some 0x00"
proof -
  have "draw_background scenario_a (fill grey_bitmap 0xff small_clip) small_clip 100 0x5B = 0"
    by (simp add: zero_background [OF scenario_a_zero(1-3)])
  then show ?thesis
    by (simp add: screen_update_skyfox_def draw_sprites_blank [OF scenario_a_zero(4)]
        small_clip_def rect_contains_def grey_bitmap_def)
qed

text \<open>The other two layers of the frame do keep to the clip.\<close>

lemma fill_outside_clip: "\<not> rect_contains clip px py \<Longrightarrow> fill fb colour clip py px = fb py px"
  by (simp add: fill_def)

lemma spec_walk_4_plain:
  "spec_walk 4 c False False =
     [(0, 0, c), (1, 0, c + 1), (2, 0, c + 2), (3, 0, c + 3),
      (0, 1, c + 4), (1, 1, c + 5), (2, 1, c + 6), (3, 1, c + 7),
      (0, 2, c + 8), (1, 2, c + 9), (2, 2, c + 10), (3, 2, c + 11),
      (0, 3, c + 12), (1, 3, c + 13), (2, 3, c + 14), (3, 3, c + 15)]"
  by (simp add: spec_walk_def spec_order_def upto_0_3)

lemma spec_blit_twice_solid:
  assumes g: "gfx_width g = 8" "gfx_height g = 8" "16 \<le> gfx_elements g"
      "gfx_palette_base g 0 = 0"
      "\<forall>code tx ty. 0 \<le> code \<and> code < 16 \<longrightarrow> gfx_decode g code tx ty = 0x01"
    and c: "0 \<le> code" "code < 16"
  shows "spec_blit_twice g clip fx fy x y (dx, dy, code) b py px =
           (if dx * 8 + x \<le> px \<and> px < dx * 8 + x + 8
               \<and> (dy * 8 + y \<le> py \<and> py < dy * 8 + y + 8
                   \<or> dy * 8 + y - 256 \<le> py \<and> py < dy * 8 + y - 256 + 8)
               \<and> rect_contains clip px py
            then 1 else b py px)"
proof -
  have m: "code mod gfx_elements g = code" using g(3) c by simp
  have d: "gfx_decode g code tx ty = 0x01" for tx ty using g(5) c by simp
  show ?thesis
    by (auto simp: spec_blit_twice_def transpen_pixel Let_def m d g(1,2,4))
qed

lemma block_tile_exists:
  assumes "X \<le> px" "px < X + 32"
  shows "\<exists>d\<in>{0, 1, 2, 3::int}. d * 8 + X \<le> px \<and> px < d * 8 + X + 8"
proof -
  consider "px < X + 8" | "X + 8 \<le> px \<and> px < X + 16" | "X + 16 \<le> px \<and> px < X + 24"
    | "X + 24 \<le> px \<and> px < X + 32"
    using assms by linarith
  then show ?thesis
  proof cases
    case 1
    then show ?thesis using assms by (intro bexI [of _ 0]) simp_all
  next
    case 2
    then show ?thesis by (intro bexI [of _ 1]) simp_all
  next
    case 3
    then show ?thesis by (intro bexI [of _ 2]) simp_all
  next
    case 4
    then show ?thesis by (intro bexI [of _ 3]) simp_all
  qed
qed

lemma walk_4_member:
  assumes "dx \<in> {0, 1, 2, 3}" "dy \<in> {0, 1, 2, 3}"
  shows "(dx, dy, dy * 4 + dx) \<in> set (spec_walk 4 0 False False)"
  using assms by (elim insertE emptyE) (simp_all add: spec_walk_4_plain)

lemma walk_4_code_range:
  assumes "dx \<in> {0, 1, 2, 3::int}" "dy \<in> {0, 1, 2, 3::int}"
  shows "0 \<le> dy * 4 + dx \<and> dy * 4 + dx < 16"
  using assms by (elim insertE emptyE) simp_all

lemma scenario_b_entry:
  assumes ctrl: "m_bg_ctrl s = 0"
    and e0: "m_spriteram s 0 = 0x10" "m_spriteram s 1 = 0x40" "m_spriteram s 2 = 0x88"
      "m_spriteram s 3 = 0x00"
    and g: "gfx_width (m_gfxdecode_gfx0 s) = 8" "gfx_height (m_gfxdecode_gfx0 s) = 8"
      "16 \<le> gfx_elements (m_gfxdecode_gfx0 s)" "gfx_palette_base (m_gfxdecode_gfx0 s) 0 = 0"
      "\<forall>code tx ty. 0 \<le> code \<and> code < 16 \<longrightarrow> gfx_decode (m_gfxdecode_gfx0 s) code tx ty = 0x01"
    and px: "128 \<le> px" "px < 160"
    and py: "16 \<le> py \<and> py < 48 \<or> 16 - 256 \<le> py \<and> py < 48 - 256"
    and clip: "rect_contains clip px py"
  shows "spec_draw_sprite s clip 0 b py px = 1"
proof -
  let ?g = "m_gfxdecode_gfx0 s"
  let ?ts = "spec_walk 4 0 False False"
  have c: "spec_code16 s 0 = 0x88" using e0 by (simp add: spec_code16_def)
  have xy: "spec_x s 0 = 128" "spec_y s 0 = 16" using e0 c by (simp_all add: spec_x_def spec_y_def)
  have eq: "spec_draw_sprite s clip 0 b = fold (spec_blit_twice ?g clip False False 128 16) ?ts b"
    by (simp add: spec_draw_sprite_def Let_def c xy ctrl spec_n_def spec_low_code_def
        spec_high_code_def spec_shift_def spec_flip_x_def spec_flip_y_def)
  have codes: "\<forall>t\<in>set ?ts. \<exists>dx dy code. t = (dx, dy, code) \<and> 0 \<le> code \<and> code < 16"
    by (simp add: spec_walk_4_plain)
  have uni: "\<forall>t\<in>set ?ts. \<forall>b. spec_blit_twice ?g clip False False 128 16 t b py px = 1
                \<or> spec_blit_twice ?g clip False False 128 16 t b py px = b py px"
  proof (intro ballI allI)
    fix t b assume "t \<in> set ?ts"
    with codes obtain dx dy code where t: "t = (dx, dy, code)" "0 \<le> code" "code < 16" by blast
    show "spec_blit_twice ?g clip False False 128 16 t b py px = 1
                \<or> spec_blit_twice ?g clip False False 128 16 t b py px = b py px"
      unfolding t(1) by (simp add: spec_blit_twice_solid [OF g t(2,3)])
  qed
  have "\<exists>d\<in>{0, 1, 2, 3::int}. d * 8 + 128 \<le> px \<and> px < d * 8 + 128 + 8"
    using px by (intro block_tile_exists) simp_all
  then obtain dx where dx: "dx \<in> {0, 1, 2, 3}" "dx * 8 + 128 \<le> px" "px < dx * 8 + 128 + 8"
    by blast
  obtain dy where dy: "dy \<in> {0, 1, 2, 3}"
    "dy * 8 + 16 \<le> py \<and> py < dy * 8 + 16 + 8 \<or> dy * 8 + 16 - 256 \<le> py \<and> py < dy * 8 + 16 - 256 + 8"
  proof -
    from py show ?thesis
    proof
      assume "16 \<le> py \<and> py < 48"
      then have "\<exists>d\<in>{0, 1, 2, 3::int}. d * 8 + 16 \<le> py \<and> py < d * 8 + 16 + 8"
        by (intro block_tile_exists) simp_all
      then obtain d where "d \<in> {0, 1, 2, 3}" "d * 8 + 16 \<le> py" "py < d * 8 + 16 + 8"
        by blast
      then show ?thesis using that [of d] by blast
    next
      assume "16 - 256 \<le> py \<and> py < 48 - 256"
      then have "\<exists>d\<in>{0, 1, 2, 3::int}. d * 8 + (- 240) \<le> py \<and> py < d * 8 + (- 240) + 8"
        by (intro block_tile_exists) simp_all
      then obtain d where "d \<in> {0, 1, 2, 3}" "d * 8 + (- 240) \<le> py" "py < d * 8 + (- 240) + 8"
        by blast
      then show ?thesis using that [of d] by force
    qed
  qed
  have mem: "(dx, dy, dy * 4 + dx) \<in> set ?ts" using dx(1) dy(1) by (rule walk_4_member)
  have cr: "0 \<le> dy * 4 + dx" "dy * 4 + dx < 16"
    using walk_4_code_range [OF dx(1) dy(1)] by simp_all
  have hit: "\<forall>b. spec_blit_twice ?g clip False False 128 16 (dx, dy, dy * 4 + dx) b py px = 1"
    using dx(2,3) dy(2) clip by (simp add: spec_blit_twice_solid [OF g cr])
  have "fold (spec_blit_twice ?g clip False False 128 16) ?ts b py px = 1"
    using uni mem hit
    by (intro fold_pixel_uniform [where f = "spec_blit_twice ?g clip False False 128 16"
          and as = "?ts" and v = 1 and py = py and px = px]) blast+
  then show ?thesis by (simp add: eq)
qed

lemma solid_gfx_facts:
  "gfx_width solid_gfx = 8" "gfx_height solid_gfx = 8" "16 \<le> gfx_elements solid_gfx"
  "gfx_palette_base solid_gfx 0 = 0"
  "\<forall>code tx ty. 0 \<le> code \<and> code < 16 \<longrightarrow> gfx_decode solid_gfx code tx ty = 0x01"
  by (simp_all add: solid_gfx_def)

lemma scenario_b_facts:
  "m_bg_ctrl scenario_b = 0" "m_spriteram scenario_b 0 = 0x10" "m_spriteram scenario_b 1 = 0x40"
  "m_spriteram scenario_b 2 = 0x88" "m_spriteram scenario_b 3 = 0x00"
  "m_gfxdecode_gfx0 scenario_b = solid_gfx" "m_spriteram_bytes scenario_b = 1024"
  "\<forall>a. m_bgram scenario_b a = 0" "\<forall>a. memregion_gfx2 scenario_b a = 0"
  by (simp_all add: scenario_b_def scenario_a_def)

lemma scenario_b_later:
  assumes "4 \<le> offs" "offs mod 4 = 0"
  shows "spec_draw_sprite scenario_b clip offs b = b"
proof -
  have m: "(offs + 3) mod 4 = 3" "(offs + 2) mod 4 = 2" "(offs + 1) mod 4 = 1"
    using assms by presburger+
  have r: "m_spriteram scenario_b (offs + 3) = 2" "m_spriteram scenario_b (offs + 2) = 0"
    "m_spriteram scenario_b (offs + 1) = 0" "m_spriteram scenario_b offs = 0"
    using assms m by (simp_all add: scenario_b_def)
  have c: "spec_code16 scenario_b offs = 0x200" by (simp add: spec_code16_def r)
  have t: "transpen solid_gfx fb clip 0x20 color fx fy X Y 0xff = fb" for fb color fx fy X Y
    by (rule transpen_blank_tile) (simp add: solid_gfx_def)
  show ?thesis
    by (simp add: spec_draw_sprite_def Let_def c scenario_b_facts spec_n_def spec_low_code_def
        spec_high_code_def spec_shift_def spec_walk_def spec_order_def upto_0_0
        spec_blit_twice_def t)
qed

lemma scenario_b_others:
  "\<forall>offs\<in>set (spec_sprite_offsets (m_spriteram_bytes scenario_b)). 0 < offs \<longrightarrow>
      (\<forall>b. draw_sprite scenario_b offs b clip = Some b)"
proof (intro ballI impI allI)
  fix offs b
  assume "offs \<in> set (spec_sprite_offsets (m_spriteram_bytes scenario_b))" "0 < offs"
  then have "4 \<le> offs" "offs mod 4 = 0" by (auto simp: sprite_offsets_mem)
  then show "draw_sprite scenario_b offs b clip = Some b"
    by (simp add: draw_sprite_eq_spec scenario_b_later)
qed

lemma scenario_b_entry_outside:
  assumes "px < 128 \<or> 160 \<le> px"
  shows "spec_draw_sprite scenario_b clip 0 b py px = b py px"
proof -
  have c: "spec_code16 scenario_b 0 = 0x88" by (simp add: spec_code16_def scenario_b_facts)
  have xy: "spec_x scenario_b 0 = 128" "spec_y scenario_b 0 = 16"
    using c by (simp_all add: spec_x_def spec_y_def scenario_b_facts)
  have eq: "spec_draw_sprite scenario_b clip 0 b
              = fold (spec_blit_twice solid_gfx clip False False 128 16) (spec_walk 4 0 False False) b"
    by (simp add: spec_draw_sprite_def Let_def c xy scenario_b_facts spec_n_def spec_low_code_def
        spec_high_code_def spec_shift_def spec_flip_x_def spec_flip_y_def)
  have "\<forall>t\<in>set (spec_walk 4 0 False False). \<forall>b.
          spec_blit_twice solid_gfx clip False False 128 16 t b py px = b py px"
    using assms
    by (auto simp: spec_walk_4_plain spec_blit_twice_solid [OF solid_gfx_facts])
  then have "fold (spec_blit_twice solid_gfx clip False False 128 16) (spec_walk 4 0 False False) b py px
               = b py px"
    by (rule fold_pixel_unchanged)
  then show ?thesis by (simp add: eq)
qed

lemma scenario_b_sprites_outside:
  assumes "px < 128 \<or> 160 \<le> px"
  shows "rendered_pixel (draw_sprites scenario_b fb clip) py px = Some (fb py px)"
proof -
  have "\<forall>offs\<in>set (spec_sprite_offsets (m_spriteram_bytes scenario_b)). \<forall>b.
           spec_draw_sprite scenario_b clip offs b py px = b py px"
  proof (intro ballI allI)
    fix offs b
    assume "offs \<in> set (spec_sprite_offsets (m_spriteram_bytes scenario_b))"
    then have "offs = 0 \<or> 4 \<le> offs \<and> offs mod 4 = 0" by (auto simp: sprite_offsets_mem)
    then show "spec_draw_sprite scenario_b clip offs b py px = b py px"
      using scenario_b_entry_outside [OF assms] scenario_b_later by auto
  qed
  then have "fold (spec_draw_sprite scenario_b clip) (spec_sprite_offsets (m_spriteram_bytes scenario_b)) fb py px
               = fb py px"
    by (rule fold_pixel_unchanged)
  then show ?thesis by (simp add: draw_sprites_fold)
qed

text \<open>
  Claim C7, as amended. For a snapshot whose first sprite entry is
  \<open>{0x10, 0x40, 0x88, 0x00}\<close>, with control register 0, 8 by 8 tiles of which the codes
  0 to 15 (the 32 by 32 tile 0) are filled with palette index 0x01 on palette base 0, and
  whose other entries contribute nothing, the rendered frame holds 0x01 in every pixel of
  the clip in the 32 by 32 block at \<open>x = 0x40*2 = 128\<close>, \<open>y = 0x10\<close> (columns 128 to
  159, rows 16 to 47) and in its wrap clone 256 rows higher (rows -240 to -209).
\<close>

theorem single_sprite_block:
  assumes ctrl: "m_bg_ctrl s = 0"
    and e0: "m_spriteram s 0 = 0x10" "m_spriteram s 1 = 0x40" "m_spriteram s 2 = 0x88"
      "m_spriteram s 3 = 0x00"
    and sz: "4 \<le> m_spriteram_bytes s"
    and g: "gfx_width (m_gfxdecode_gfx0 s) = 8" "gfx_height (m_gfxdecode_gfx0 s) = 8"
      "16 \<le> gfx_elements (m_gfxdecode_gfx0 s)" "gfx_palette_base (m_gfxdecode_gfx0 s) 0 = 0"
      "\<forall>code tx ty. 0 \<le> code \<and> code < 16 \<longrightarrow> gfx_decode (m_gfxdecode_gfx0 s) code tx ty = 0x01"
    and others: "\<forall>offs\<in>set (spec_sprite_offsets (m_spriteram_bytes s)). 0 < offs \<longrightarrow>
                   (\<forall>b. draw_sprite s offs b cliprect = Some b)"
    and px: "128 \<le> px" "px < 160"
    and py: "16 \<le> py \<and> py < 48 \<or> 16 - 256 \<le> py \<and> py < 48 - 256"
    and clip: "rect_contains cliprect px py"
  shows "rendered_pixel (screen_update_skyfox s bitmap cliprect) py px = Some 0x01"
proof -
  let ?bg = "draw_background s (fill bitmap 0xff cliprect) cliprect"
  have mem: "0 \<in> set (spec_sprite_offsets (m_spriteram_bytes s))"
    using sz by (simp add: sprite_offsets_mem)
  have op: "\<forall>b. spec_draw_sprite s cliprect 0 b py px = 1"
    using scenario_b_entry [OF ctrl e0 g px py clip] by simp
  have later: "\<forall>o'\<in>set (spec_sprite_offsets (m_spriteram_bytes s)). 0 < o' \<longrightarrow>
                  (\<forall>b. spec_draw_sprite s cliprect o' b py px = b py px)"
    using others by (simp add: draw_sprite_eq_spec)
  have "fold (spec_draw_sprite s cliprect) (spec_sprite_offsets (m_spriteram_bytes s)) ?bg py px = 1"
    using mem op later by (rule draw_sprites_last_writer)
  then show ?thesis
    by (simp add: screen_update_skyfox_def draw_sprites_fold)
qed

text \<open>
  Scenario B: two corners of the block on the 512 by 256 screen, and a pixel of the
  clone under a clip that reaches above the screen.
\<close>

theorem single_sprite_block_witness:
  "rendered_pixel (screen_update_skyfox scenario_b grey_bitmap full_clip) 16 128 = Some 0x01
   \<and> rendered_pixel (screen_update_skyfox scenario_b grey_bitmap full_clip) 47 159 = Some 0x01
   \<and> rendered_pixel (screen_update_skyfox scenario_b grey_bitmap tall_clip) (- 240) 128 = Some 0x01"
proof -
  note f = scenario_b_facts
  have sz: "4 \<le> m_spriteram_bytes scenario_b" by (simp add: f)
  note g = solid_gfx_facts [folded f(6)]
  note t = single_sprite_block [OF f(1-5) sz g scenario_b_others]
  have "rendered_pixel (screen_update_skyfox scenario_b grey_bitmap full_clip) 16 128 = Some 0x01"
    by (rule t) (simp_all add: full_clip_def rect_contains_def)
  moreover have "rendered_pixel (screen_update_skyfox scenario_b grey_bitmap full_clip) 47 159 = Some 0x01"
    by (rule t) (simp_all add: full_clip_def rect_contains_def)
  moreover have "rendered_pixel (screen_update_skyfox scenario_b grey_bitmap tall_clip) (- 240) 128 = Some 0x01"
    by (rule t) (simp_all add: tall_clip_def rect_contains_def)
  ultimately show ?thesis by simp
qed

text \<open>
  The claim as stated fails: at \<open>x = 256\<close> (and at \<open>x = 0\<close>), row 0x10, scenario B
  shows the clear colour.
\<close>

theorem single_sprite_block_counterexample:
  "rendered_pixel (screen_update_skyfox scenario_b grey_bitmap full_clip) 16 256 = Some 0xff
   \<and> rendered_pixel (screen_update_skyfox scenario_b grey_bitmap full_clip) 16 0 = Some 0xff"
  by (simp add: screen_update_skyfox_def scenario_b_sprites_outside
      zero_background [OF scenario_b_facts(1,8,9)] fill_def full_clip_def rect_contains_def)

section \<open>Chack'n Pop: the sprite table\<close>

lemma spr_ram_regions:
  "share_regions ''spr_ram'' chaknpop_map =
     [\<lparr>addr_start = 0x9840, addr_end = 0x98ff, map_handler = Ram, map_share = Some ''spr_ram''\<rparr>]"
  by (simp add: share_regions_def chaknpop_map_def)

lemma spr_ram_bytes: "share_bytes ''spr_ram'' chaknpop_map = 192"
  by (simp add: share_bytes_def spr_ram_regions region_bytes_def)

lemma length_spr_entries: "length (spr_entries ram) = length ram div 4"
  by (induction ram rule: spr_entries.induct) simp_all

lemma nth_spr_entries:
  "k < length ram div 4 \<Longrightarrow>
     spr_entries ram ! k = \<lparr>spr_tile = ram ! (4 * k), spr_colour = ram ! (4 * k + 1),
                             spr_y = ram ! (4 * k + 2), spr_x = ram ! (4 * k + 3)\<rparr>"
proof (induction ram arbitrary: k rule: spr_entries.induct)
  case (1 t c y x rest)
  show ?case
  proof (cases k)
    case 0
    then show ?thesis by simp
  next
    case (Suc j)
    with 1 have "j < length rest div 4" by simp
    then show ?thesis using 1 Suc by (simp add: add.commute)
  qed
qed simp_all

text \<open>
  Claim C8, as amended. The sprite list of Chack'n Pop lives in the single region of the
  memory map that declares the share \<open>spr_ram\<close>, 0x9840 to 0x98FF: 192 bytes, which is
  4 times 48. Read as 4-byte entries in the layout tile / colour / y / x, a table of that
  length holds 48 entries, entry \<open>k\<close> being the bytes \<open>4k\<close> to \<open>4k + 3\<close>.
\<close>

theorem chaknpop_sprite_table:
  "length (share_regions ''spr_ram'' chaknpop_map) = 1
   \<and> share_bytes ''spr_ram'' chaknpop_map = 192
   \<and> share_bytes ''spr_ram'' chaknpop_map = 4 * 48
   \<and> (length ram = share_bytes ''spr_ram'' chaknpop_map \<longrightarrow>
        length (spr_entries ram) = 48
        \<and> (\<forall>k<48. spr_entries ram ! k =
              \<lparr>spr_tile = ram ! (4 * k), spr_colour = ram ! (4 * k + 1),
               spr_y = ram ! (4 * k + 2), spr_x = ram ! (4 * k + 3)\<rparr>))"
proof (intro conjI impI)
  show "length (share_regions ''spr_ram'' chaknpop_map) = 1" by (simp add: spr_ram_regions)
  show "share_bytes ''spr_ram'' chaknpop_map = 192" by (rule spr_ram_bytes)
  show "share_bytes ''spr_ram'' chaknpop_map = 4 * 48" by (simp add: spr_ram_bytes)
next
  assume l: "length ram = share_bytes ''spr_ram'' chaknpop_map"
  then have l': "length ram = 192" by (simp add: spr_ram_bytes)
  then show "length (spr_entries ram) = 48" by (simp add: length_spr_entries)
  show "\<forall>k<48. spr_entries ram ! k =
              \<lparr>spr_tile = ram ! (4 * k), spr_colour = ram ! (4 * k + 1),
               spr_y = ram ! (4 * k + 2), spr_x = ram ! (4 * k + 3)\<rparr>"
    using l' by (intro allI impI nth_spr_entries) simp
qed

theorem chaknpop_sprite_table_witness:
  "length (replicate 192 (0::u8)) = share_bytes ''spr_ram'' chaknpop_map
   \<and> length (spr_entries (replicate 192 0)) = 48
   \<and> spr_entries (replicate 192 0) ! 47 = \<lparr>spr_tile = 0, spr_colour = 0, spr_y = 0, spr_x = 0\<rparr>"
  using chaknpop_sprite_table [of "replicate 192 0"]
  by (simp add: spr_ram_bytes)

text \<open>
  The claim as stated fails: the 192 bytes hold 48 entries of 4 bytes, more than 32, and
  192 is not 4 times 32.
\<close>

theorem chaknpop_sprite_count_counterexample:
  "share_bytes ''spr_ram'' chaknpop_map = 192
   \<and> share_bytes ''spr_ram'' chaknpop_map div 4 = 48
   \<and> \<not> share_bytes ''spr_ram'' chaknpop_map div 4 \<le> 32
   \<and> share_bytes ''spr_ram'' chaknpop_map \<noteq> 4 * 32"
  by (simp add: spr_ram_bytes)

end
